theory Spec2Isabelle
  imports Main "HOL-Library.AList"
begin

section \<open>Strings\<close>

text \<open>
  A Python \<open>str\<close> is modelled as a \<open>string\<close>; one \<open>char\<close> stands for one code point, so the
  model covers the code points below 256. The helpers below are the Python string methods
  the scraper calls.
\<close>

definition isspace :: "char \<Rightarrow> bool" where
  \<comment> \<open>\<open>str.isspace\<close> and the regular expression class \<open>\s\<close> on code points below 256\<close>
  "isspace c = ((of_char c :: nat) \<in> {9, 10, 11, 12, 13, 28, 29, 30, 31, 32, 133, 160})"

definition strip :: "string \<Rightarrow> string" where
  \<comment> \<open>\<open>s.strip()\<close>\<close>
  "strip s = rev (dropWhile isspace (rev (dropWhile isspace s)))"

definition lower_char :: "char \<Rightarrow> char" where
  "lower_char c =
     (let n = (of_char c :: nat)
      in if (65 \<le> n \<and> n \<le> 90) \<or> (192 \<le> n \<and> n \<le> 222 \<and> n \<noteq> 215)
         then char_of (n + 32) else c)"

definition lower :: "string \<Rightarrow> string" where
  \<comment> \<open>\<open>s.lower()\<close>\<close>
  "lower s = map lower_char s"

definition replace_char :: "char \<Rightarrow> char \<Rightarrow> string \<Rightarrow> string" where
  \<comment> \<open>\<open>s.replace(a, b)\<close> for one-character \<open>a\<close> and \<open>b\<close>\<close>
  "replace_char a b s = map (\<lambda>c. if c = a then b else c) s"

definition remove_char :: "char \<Rightarrow> string \<Rightarrow> string" where
  \<comment> \<open>\<open>s.replace(a, "")\<close> for a one-character \<open>a\<close>\<close>
  "remove_char a s = filter (\<lambda>c. c \<noteq> a) s"

definition startswith :: "string \<Rightarrow> string \<Rightarrow> bool" where
  "startswith s p = (take (length p) s = p)"

definition endswith :: "string \<Rightarrow> string \<Rightarrow> bool" where
  "endswith s p = (length p \<le> length s \<and> drop (length s - length p) s = p)"

fun contains :: "string \<Rightarrow> string \<Rightarrow> bool" where
  \<comment> \<open>\<open>p in s\<close>\<close>
  "contains [] p = (p = [])"
| "contains (c # cs) p = (startswith (c # cs) p \<or> contains cs p)"

definition rstrip_char :: "char \<Rightarrow> string \<Rightarrow> string" where
  \<comment> \<open>\<open>s.rstrip(a)\<close> for a one-character \<open>a\<close>\<close>
  "rstrip_char a s = rev (dropWhile (\<lambda>c. c = a) (rev s))"

fun join :: "string \<Rightarrow> string list \<Rightarrow> string" where
  \<comment> \<open>\<open>sep.join(xs)\<close>\<close>
  "join sep [] = []"
| "join sep [x] = x"
| "join sep (x # y # ys) = x @ sep @ join sep (y # ys)"

fun split_on :: "char \<Rightarrow> string \<Rightarrow> string list" where
  \<comment> \<open>\<open>s.split(c)\<close> for a one-character separator\<close>
  "split_on c [] = [[]]"
| "split_on c (x # xs) =
     (if x = c then [] # split_on c xs
      else (let r = split_on c xs in (x # hd r) # tl r))"

fun before_sep :: "string \<Rightarrow> string \<Rightarrow> string" where
  \<comment> \<open>\<open>s.split(sep)[0]\<close> for a non-empty \<open>sep\<close>\<close>
  "before_sep sep [] = []"
| "before_sep sep (c # cs) = (if startswith (c # cs) sep then [] else c # before_sep sep cs)"

fun collapse_ws :: "string \<Rightarrow> string" where
  \<comment> \<open>\<open>re.sub(r"\s+", " ", s)\<close>: every maximal run of whitespace becomes one space\<close>
  "collapse_ws [] = []"
| "collapse_ws [c] = (if isspace c then '' '' else [c])"
| "collapse_ws (c # d # cs) =
     (if isspace c then (if isspace d then collapse_ws (d # cs) else CHR '' '' # collapse_ws (d # cs))
      else c # collapse_ws (d # cs))"

definition clean_text :: "string \<Rightarrow> string" where
  "clean_text text =
     (if text = [] then []
      else strip (collapse_ws (replace_char (CHR 0xA0) CHR '' '' text)))"

text \<open>
  An element's text is given by its text nodes in document order; \<open>get_text()\<close> concatenates
  them, \<open>get_text(strip=True)\<close> strips each and drops the empty ones, and
  \<open>get_text(" ", strip=True)\<close> joins the stripped ones with a space.
\<close>

type_synonym text_nodes = "string list"

definition get_text :: "text_nodes \<Rightarrow> string" where
  "get_text ts = concat ts"

definition get_text_strip :: "text_nodes \<Rightarrow> string" where
  "get_text_strip ts = concat (filter (\<lambda>s. s \<noteq> []) (map strip ts))"

definition get_text_sep_strip :: "string \<Rightarrow> text_nodes \<Rightarrow> string" where
  "get_text_sep_strip sep ts = join sep (filter (\<lambda>s. s \<noteq> []) (map strip ts))"

section \<open>Errors\<close>

datatype exn = FetchError | AttributeError | IndexError | RecursionError

section \<open>The seasons table\<close>

text \<open>
  A table cell as \<open>parse_seasons_table\<close> reads it: its text nodes and, when the cell holds
  an \<open>img\<close>, the path component of the first image's \<open>src\<close> (\<open>urlparse(src).path\<close>, with
  \<open>src\<close> defaulting to the empty string).
\<close>

record cell =
  cell_text :: text_nodes
  cell_img :: "string option"

text \<open>
  A table: the rows of its \<open>thead\<close> (each row as its \<open>th\<close> cells) and of its \<open>tbody\<close>
  (each row as its \<open>td\<close> and \<open>th\<close> cells). \<open>None\<close> where \<open>table.find\<close> finds no such
  element, on which the attribute access then raises.
\<close>

record table =
  thead :: "cell list list option"
  tbody :: "cell list list option"

type_synonym 'v dict = "(string \<times> 'v) list"

definition basename :: "string \<Rightarrow> string" where
  \<comment> \<open>\<open>os.path.basename\<close>: what follows the last slash\<close>
  "basename p = rev (takeWhile (\<lambda>c. c \<noteq> CHR ''/'') (rev p))"

definition is_alpha :: "char \<Rightarrow> bool" where
  \<comment> \<open>the class \<open>[A-Za-z]\<close>\<close>
  "is_alpha c = (let n = (of_char c :: nat) in (65 \<le> n \<and> n \<le> 90) \<or> (97 \<le> n \<and> n \<le> 122))"

definition month_match :: "string \<Rightarrow> bool" where
  \<comment> \<open>\<open>re.match(r"[A-Za-z]{3}$", c)\<close>; \<open>$\<close> also matches before a final newline\<close>
  "month_match c =
     (list_all is_alpha (take 3 c) \<and> (length c = 3 \<or> (length c = 4 \<and> c ! 3 = CHR 0x0A)))"

definition bi_month_key :: "cell \<Rightarrow> string" where
  "bi_month_key c =
     replace_char CHR '' '' CHR ''_''
       (replace_char CHR ''/'' CHR ''_'' (lower (get_text_strip (cell_text c))))"

fun single_month_headers :: "cell list list \<Rightarrow> string list" where
  \<comment> \<open>the first header row with a cell that matches a month name, lower-cased\<close>
  "single_month_headers [] = []"
| "single_month_headers (row # rows) =
     (let months = filter month_match (map (\<lambda>c. get_text_strip (cell_text c)) row)
      in if months \<noteq> [] then map lower months else single_month_headers rows)"

definition month_headers :: "cell list list \<Rightarrow> string \<Rightarrow> string list" where
  "month_headers thead_rows months_format =
     (if months_format = ''bi''
      then (if length thead_rows > 1 then map bi_month_key (thead_rows ! 1) else [])
      else single_month_headers thead_rows)"

definition cell_value :: "cell \<Rightarrow> string" where
  "cell_value c =
     (case cell_img c of
        Some path \<Rightarrow>
          (let filename = basename path
           in if startswith (lower filename) ''wanna-empty'' then ''0'' else filename)
      | None \<Rightarrow> clean_text (get_text (cell_text c)))"

fun row_values :: "cell list \<Rightarrow> (nat \<times> string) list \<Rightarrow> string dict \<Rightarrow> string dict" where
  \<comment> \<open>the loop over \<open>enumerate(month_headers)\<close>\<close>
  "row_values cells [] values = values"
| "row_values cells ((idx, month_key) # rest) values =
     (let cell_index = idx + 1
      in if cell_index \<ge> length cells
         then row_values cells rest (AList.update month_key [] values)
         else row_values cells rest (AList.update month_key (cell_value (cells ! cell_index)) values))"

definition metric_name :: "cell \<Rightarrow> string" where
  "metric_name c =
     remove_char CHR ''.'' (replace_char CHR '' '' CHR ''_'' (lower (clean_text (get_text (cell_text c)))))"

fun body_rows_loop :: "string list \<Rightarrow> cell list list \<Rightarrow> string dict dict \<Rightarrow> string dict dict" where
  "body_rows_loop hdrs [] result = result"
| "body_rows_loop hdrs (cells # rows) result =
     (if cells = [] then body_rows_loop hdrs rows result
      else body_rows_loop hdrs rows
             (AList.update (metric_name (hd cells)) (row_values cells (enumerate 0 hdrs) []) result))"

definition parse_seasons_table :: "table \<Rightarrow> string \<Rightarrow> exn + string dict dict" where
  "parse_seasons_table t months_format =
     (case thead t of
        None \<Rightarrow> Inl AttributeError
      | Some thead_rows \<Rightarrow>
          (case tbody t of
             None \<Rightarrow> Inl AttributeError
           | Some body_rows \<Rightarrow>
               Inr (body_rows_loop (month_headers thead_rows months_format) body_rows [])))"

definition text_cell :: "string \<Rightarrow> cell" where
  \<comment> \<open>a cell holding one text node and no image\<close>
  "text_cell s = \<lparr>cell_text = [s], cell_img = None\<rparr>"

definition img_cell :: "string \<Rightarrow> cell" where
  \<comment> \<open>a cell holding one image, whose \<open>src\<close> has the given path\<close>
  "img_cell path = \<lparr>cell_text = [], cell_img = Some path\<rparr>"

definition qualifying_header :: "cell list list \<Rightarrow> string \<Rightarrow> bool" where
  \<comment> \<open>a header row from which column keys are taken: the second row in the paired format,
      a row with a cell matching the month pattern otherwise\<close>
  "qualifying_header thead_rows months_format =
     (if months_format = ''bi'' then length thead_rows > 1
      else list_ex (\<lambda>row. list_ex (\<lambda>c. month_match (get_text_strip (cell_text c))) row) thead_rows)"

section \<open>Rendering the seasons of a node\<close>

definition upper_char :: "char \<Rightarrow> char" where
  "upper_char c = (let n = (of_char c :: nat) in if 97 \<le> n \<and> n \<le> 122 then char_of (n - 32) else c)"

fun title_from :: "bool \<Rightarrow> string \<Rightarrow> string" where
  "title_from prev_cased [] = []"
| "title_from prev_cased (c # cs) =
     (if is_alpha c then (if prev_cased then lower_char c else upper_char c) # title_from True cs
      else c # title_from False cs)"

definition title_str :: "string \<Rightarrow> string" where
  \<comment> \<open>\<open>s.title()\<close> on ASCII text, which is all it is applied to\<close>
  "title_str s = title_from False s"

definition default_months :: "string list" where
  "default_months = [''jan_feb'', ''mar_apr'', ''may_jun'', ''jul_aug'', ''sep_oct'', ''nov_dec'']"

definition month_label :: "string \<Rightarrow> string" where
  "month_label month = title_str (replace_char CHR ''_'' CHR ''/'' month)"

definition newline :: string where
  "newline = [CHR 0x0A]"

fun season_rows :: "string dict \<Rightarrow> string list \<Rightarrow> string list \<Rightarrow> string list" where
  \<comment> \<open>the loop over \<open>default_months\<close> that appends to \<open>rows\<close>\<close>
  "season_rows vals [] rows = rows"
| "season_rows vals (month # months) rows =
     (let val = (case map_of vals month of Some v \<Rightarrow> v | None \<Rightarrow> [])
      in if val = [] \<or> val = ''0''
         then season_rows vals months (rows @ [month_label month @ '' - empty''])
         else season_rows vals months (rows @ [month_label month @ '' - '' @ val]))"

definition format_seasons :: "string dict dict \<Rightarrow> string \<Rightarrow> string" where
  "format_seasons seasons metric_key =
     (if seasons = [] then join newline (map (\<lambda>m. month_label m @ '' - empty'') default_months)
      else (case map_of seasons metric_key of
              None \<Rightarrow> join newline (map (\<lambda>m. month_label m @ '' - empty'') default_months)
            | Some vals \<Rightarrow> join newline (season_rows vals default_months [])))"

text \<open>What the seasons mapping stores for a metric and a month, and what the report is to show for it.\<close>

definition stored_value :: "string dict dict \<Rightarrow> string \<Rightarrow> string \<Rightarrow> string option" where
  "stored_value seasons metric_key month =
     (case map_of seasons metric_key of None \<Rightarrow> None | Some vals \<Rightarrow> map_of vals month)"

definition value_or_empty :: "string dict dict \<Rightarrow> string \<Rightarrow> string \<Rightarrow> string" where
  "value_or_empty seasons metric_key month =
     (case stored_value seasons metric_key month of
        None \<Rightarrow> ''empty''
      | Some v \<Rightarrow> if v = [] \<or> v = ''0'' then ''empty'' else v)"

section \<open>Surf spots\<close>

record spot =
  name :: string
  distance :: string
  walk :: string
  easy_to_find :: string
  public_access :: string
  special_access :: string
  wave_quality :: string
  experience :: string
  frequency :: string
  spot_type :: string
  direction :: string
  bottom :: string
  spot_power :: string
  normal_length :: string
  good_day_length :: string
  good_swell_direction :: string
  good_wind_direction :: string
  swell_size :: string
  best_tide_position :: string
  best_tide_movement :: string
  additional_information :: string
  latitude :: string
  longitude :: string

definition Spot :: "string \<Rightarrow> spot" where
  \<comment> \<open>the dataclass constructor: every field but the name defaults to the empty string\<close>
  "Spot n =
     \<lparr>name = n, distance = [], walk = [], easy_to_find = [], public_access = [],
      special_access = [], wave_quality = [], experience = [], frequency = [], spot_type = [],
      direction = [], bottom = [], spot_power = [], normal_length = [], good_day_length = [],
      good_swell_direction = [], good_wind_direction = [], swell_size = [],
      best_tide_position = [], best_tide_movement = [], additional_information = [],
      latitude = [], longitude = []\<rparr>"

definition to_row :: "spot \<Rightarrow> string list" where
  "to_row s =
     [name s, distance s, walk s, easy_to_find s, public_access s, special_access s,
      wave_quality s, experience s, frequency s, spot_type s, direction s, bottom s,
      spot_power s, normal_length s, good_day_length s, good_swell_direction s,
      good_wind_direction s, swell_size s, best_tide_position s, best_tide_movement s,
      additional_information s, latitude s, longitude s]"

text \<open>The attribute names that the final loop of \<open>parse_spot_page\<close> goes through.\<close>

datatype field =
    F_distance | F_walk | F_easy_to_find | F_public_access | F_special_access
  | F_wave_quality | F_experience | F_frequency | F_type | F_direction | F_bottom | F_power
  | F_normal_length | F_good_day_length | F_good_swell_direction | F_good_wind_direction
  | F_swell_size | F_best_tide_position | F_best_tide_movement
  | F_latitude | F_longitude | F_additional_information

fun getattr :: "spot \<Rightarrow> field \<Rightarrow> string" where
  "getattr s F_distance = distance s"
| "getattr s F_walk = walk s"
| "getattr s F_easy_to_find = easy_to_find s"
| "getattr s F_public_access = public_access s"
| "getattr s F_special_access = special_access s"
| "getattr s F_wave_quality = wave_quality s"
| "getattr s F_experience = experience s"
| "getattr s F_frequency = frequency s"
| "getattr s F_type = spot_type s"
| "getattr s F_direction = direction s"
| "getattr s F_bottom = bottom s"
| "getattr s F_power = spot_power s"
| "getattr s F_normal_length = normal_length s"
| "getattr s F_good_day_length = good_day_length s"
| "getattr s F_good_swell_direction = good_swell_direction s"
| "getattr s F_good_wind_direction = good_wind_direction s"
| "getattr s F_swell_size = swell_size s"
| "getattr s F_best_tide_position = best_tide_position s"
| "getattr s F_best_tide_movement = best_tide_movement s"
| "getattr s F_latitude = latitude s"
| "getattr s F_longitude = longitude s"
| "getattr s F_additional_information = additional_information s"

fun setattr :: "spot \<Rightarrow> field \<Rightarrow> string \<Rightarrow> spot" where
  "setattr s F_distance v = s\<lparr>distance := v\<rparr>"
| "setattr s F_walk v = s\<lparr>walk := v\<rparr>"
| "setattr s F_easy_to_find v = s\<lparr>easy_to_find := v\<rparr>"
| "setattr s F_public_access v = s\<lparr>public_access := v\<rparr>"
| "setattr s F_special_access v = s\<lparr>special_access := v\<rparr>"
| "setattr s F_wave_quality v = s\<lparr>wave_quality := v\<rparr>"
| "setattr s F_experience v = s\<lparr>experience := v\<rparr>"
| "setattr s F_frequency v = s\<lparr>frequency := v\<rparr>"
| "setattr s F_type v = s\<lparr>spot_type := v\<rparr>"
| "setattr s F_direction v = s\<lparr>direction := v\<rparr>"
| "setattr s F_bottom v = s\<lparr>bottom := v\<rparr>"
| "setattr s F_power v = s\<lparr>spot_power := v\<rparr>"
| "setattr s F_normal_length v = s\<lparr>normal_length := v\<rparr>"
| "setattr s F_good_day_length v = s\<lparr>good_day_length := v\<rparr>"
| "setattr s F_good_swell_direction v = s\<lparr>good_swell_direction := v\<rparr>"
| "setattr s F_good_wind_direction v = s\<lparr>good_wind_direction := v\<rparr>"
| "setattr s F_swell_size v = s\<lparr>swell_size := v\<rparr>"
| "setattr s F_best_tide_position v = s\<lparr>best_tide_position := v\<rparr>"
| "setattr s F_best_tide_movement v = s\<lparr>best_tide_movement := v\<rparr>"
| "setattr s F_latitude v = s\<lparr>latitude := v\<rparr>"
| "setattr s F_longitude v = s\<lparr>longitude := v\<rparr>"
| "setattr s F_additional_information v = s\<lparr>additional_information := v\<rparr>"

section \<open>Documents\<close>

text \<open>
  The markup library is outside the program; a fetched document is given by what the
  program's queries on it return, each as the program sees it when it asks.

  A labelled paragraph: the text nodes of its first \<open>span\<close> of class \<open>wanna-item-label\<close>
  (\<open>None\<close> when it has none) and the text nodes that are left once every \<open>span\<close> is
  taken out of the paragraph.
\<close>

record para =
  p_label :: "text_nodes option"
  p_rest :: text_nodes

text \<open>A child element of a characteristics column: a sub-heading, a paragraph, or another tag.\<close>

datatype col_child = H5 text_nodes | P para | Other_tag

text \<open>
  A section heading (\<open>h3\<close> of class \<open>wanna-item\<close>): its text nodes, the paragraphs of the
  first table after it (\<open>None\<close> when no table follows), and the text nodes of the first
  paragraph after it whose style has \<open>display:inline\<close> (\<open>None\<close> when none follows).
\<close>

record h3_item =
  h3_text :: text_nodes
  h3_next_table :: "para list option"
  h3_next_inline_p :: "text_nodes option"

text \<open>
  A row of a table of links: the text nodes and the resolved address
  (\<open>urljoin(BASE_URL, href)\<close>) of the first link of the row's first \<open>td\<close>; \<open>None\<close> for a
  row with no \<open>td\<close> or with no link there.
\<close>

type_synonym link_row = "(text_nodes \<times> string) option"

text \<open>
  A continent heading of the home page: the text nodes of its link (\<open>None\<close> when it has
  none), its own text nodes, and the country links of the table after it, each with its
  text nodes and resolved address (\<open>None\<close> when no table follows).
\<close>

record continent_h2 =
  h2_link :: "text_nodes option"
  h2_text :: text_nodes
  h2_countries :: "(text_nodes \<times> string) list option"

text \<open>
  A document. \<open>pg_title\<close>: the text nodes of \<open>title\<close>. \<open>pg_latitude\<close>, \<open>pg_longitude\<close>:
  the text of the node after the first coordinate label holding that word, when the label
  exists and the node after it is not empty. \<open>pg_about\<close>: the description container and, in
  it, the text nodes of its first inline paragraph or else of its first paragraph.
  \<open>pg_infos\<close>: the text nodes of the summary container. \<open>pg_seasons_table\<close>: the seasons
  table inside the additional-information container. \<open>pg_additional_map\<close>: the resolved
  address of the image of the map container, when it has an image with a \<open>src\<close>.
  \<open>pg_zone_rows\<close>, \<open>pg_spot_rows\<close>: the rows of the first table after the heading whose
  string holds "Zones", respectively "Surf Spots" (no rows when there is no such heading
  or table). \<open>pg_continents\<close>: the continent headings.
\<close>

record page =
  pg_title :: "text_nodes option"
  pg_h3_items :: "h3_item list"
  pg_left_col :: "col_child list option"
  pg_right_col :: "col_child list option"
  pg_latitude :: "string option"
  pg_longitude :: "string option"
  pg_about :: "text_nodes option option"
  pg_infos :: "text_nodes option"
  pg_seasons_table :: "table option"
  pg_additional_map :: "string option"
  pg_zone_rows :: "link_row list"
  pg_spot_rows :: "link_row list"
  pg_continents :: "continent_h2 list"

text \<open>The site: what \<open>fetch\<close> returns for an address, \<open>None\<close> where it raises.\<close>

type_synonym web = "string \<Rightarrow> page option"

definition second_last :: "'a list \<Rightarrow> exn + 'a" where
  \<comment> \<open>\<open>xs[-2]\<close>\<close>
  "second_last xs = (if length xs < 2 then Inl IndexError else Inr (xs ! (length xs - 2)))"

section \<open>Parsing a surf spot page\<close>

definition spot_name :: "page \<Rightarrow> string \<Rightarrow> exn + string" where
  "spot_name pg url =
     (let title = (case pg_title pg of Some ts \<Rightarrow> get_text_strip ts | None \<Rightarrow> [])
      in if title \<noteq> [] then Inr (before_sep '' - '' title)
         else second_last (split_on CHR ''/'' url))"

definition find_header :: "(string \<Rightarrow> bool) \<Rightarrow> h3_item list \<Rightarrow> h3_item option" where
  \<comment> \<open>the first heading whose cleaned text passes the test\<close>
  "find_header test items = find (\<lambda>h. test (clean_text (get_text (h3_text h)))) items"

definition label_of :: "text_nodes \<Rightarrow> string" where
  "label_of ts = lower (rstrip_char CHR '':'' (clean_text (get_text ts)))"

definition set_access_field :: "string \<Rightarrow> string \<Rightarrow> spot \<Rightarrow> spot" where
  "set_access_field label val s =
     (if label = ''distance'' then s\<lparr>distance := val\<rparr>
      else if label = ''walk'' then s\<lparr>walk := val\<rparr>
      else if label = ''easy to find?'' then s\<lparr>easy_to_find := val\<rparr>
      else if label = ''public access?'' then s\<lparr>public_access := val\<rparr>
      else if label = ''special access'' then s\<lparr>special_access := val\<rparr>
      else s)"

fun access_loop :: "para list \<Rightarrow> spot \<Rightarrow> spot" where
  "access_loop [] s = s"
| "access_loop (p # ps) s =
     (case p_label p of
        None \<Rightarrow> access_loop ps s
      | Some label_span \<Rightarrow>
          access_loop ps (set_access_field (label_of label_span) (clean_text (get_text (p_rest p))) s))"

definition parse_access :: "page \<Rightarrow> spot \<Rightarrow> spot" where
  "parse_access pg s =
     (case find_header (\<lambda>t. endswith (lower t) ''access'') (pg_h3_items pg) of
        None \<Rightarrow> s
      | Some access_header \<Rightarrow>
          (case h3_next_table access_header of None \<Rightarrow> s | Some ps \<Rightarrow> access_loop ps s))"

definition set_characteristic :: "string \<Rightarrow> string \<Rightarrow> spot \<Rightarrow> spot" where
  "set_characteristic label val s =
     (if label = ''wave quality'' then s\<lparr>wave_quality := val\<rparr>
      else if label = ''experience'' then s\<lparr>experience := val\<rparr>
      else if label = ''frequency'' then s\<lparr>frequency := val\<rparr>
      else if label = ''type'' then s\<lparr>spot_type := val\<rparr>
      else if label = ''direction'' then s\<lparr>direction := val\<rparr>
      else if label = ''bottom'' then s\<lparr>bottom := val\<rparr>
      else if label = ''power'' then s\<lparr>spot_power := val\<rparr>
      else if label = ''normal length'' then s\<lparr>normal_length := val\<rparr>
      else if label = ''good day length'' then s\<lparr>good_day_length := val\<rparr>
      else if label = ''good swell direction'' then s\<lparr>good_swell_direction := val\<rparr>
      else if label = ''good wind direction'' then s\<lparr>good_wind_direction := val\<rparr>
      else if label = ''swell size'' then s\<lparr>swell_size := val\<rparr>
      else if label = ''best tide position'' then s\<lparr>best_tide_position := val\<rparr>
      else if label = ''best tide movement'' then s\<lparr>best_tide_movement := val\<rparr>
      else s)"

fun column_loop :: "col_child list \<Rightarrow> spot \<Rightarrow> spot" where
  "column_loop [] s = s"
| "column_loop (H5 ts # rest) s = column_loop rest s"
| "column_loop (Other_tag # rest) s = column_loop rest s"
| "column_loop (P p # rest) s =
     (case p_label p of
        None \<Rightarrow> column_loop rest s
      | Some label_span \<Rightarrow>
          column_loop rest (set_characteristic (label_of label_span) (clean_text (get_text (p_rest p))) s))"

definition parse_column :: "col_child list option \<Rightarrow> spot \<Rightarrow> spot" where
  "parse_column col s = (case col of None \<Rightarrow> s | Some children \<Rightarrow> column_loop children s)"

definition parse_characteristics :: "page \<Rightarrow> spot \<Rightarrow> spot" where
  "parse_characteristics pg s =
     (case find_header (\<lambda>t. contains (lower t) ''surf spot characteristics'') (pg_h3_items pg) of
        None \<Rightarrow> s
      | Some characteristics_header \<Rightarrow> parse_column (pg_right_col pg) (parse_column (pg_left_col pg) s))"

definition parse_additional :: "page \<Rightarrow> spot \<Rightarrow> spot" where
  "parse_additional pg s =
     (case find_header (\<lambda>t. startswith (lower t) ''additional information'') (pg_h3_items pg) of
        None \<Rightarrow> s
      | Some additional_header \<Rightarrow>
          (case h3_next_inline_p additional_header of
             None \<Rightarrow> s
           | Some p_inline \<Rightarrow> s\<lparr>additional_information := clean_text (get_text p_inline)\<rparr>))"

definition parse_coordinates :: "page \<Rightarrow> spot \<Rightarrow> spot" where
  "parse_coordinates pg s =
     (let s1 = (case pg_latitude pg of None \<Rightarrow> s | Some lat_text \<Rightarrow> s\<lparr>latitude := clean_text lat_text\<rparr>)
      in (case pg_longitude pg of None \<Rightarrow> s1 | Some lon_text \<Rightarrow> s1\<lparr>longitude := clean_text lon_text\<rparr>))"

definition extract_spot :: "page \<Rightarrow> string \<Rightarrow> spot" where
  \<comment> \<open>the spot as it stands after the four extraction steps, before missing values are marked\<close>
  "extract_spot pg n =
     parse_coordinates pg (parse_additional pg (parse_characteristics pg (parse_access pg (Spot n))))"

definition field_names :: "field list" where
  "field_names =
     [F_distance, F_walk, F_easy_to_find, F_public_access, F_special_access, F_wave_quality,
      F_experience, F_frequency, F_type, F_direction, F_bottom, F_power, F_normal_length,
      F_good_day_length, F_good_swell_direction, F_good_wind_direction, F_swell_size,
      F_best_tide_position, F_best_tide_movement, F_latitude, F_longitude,
      F_additional_information]"

fun normalize_loop :: "field list \<Rightarrow> spot \<Rightarrow> spot" where
  "normalize_loop [] s = s"
| "normalize_loop (field_name # rest) s =
     (let val = getattr s field_name
      in if val = [] then normalize_loop rest (setattr s field_name ''empty'')
         else normalize_loop rest s)"

definition parse_spot_page :: "web \<Rightarrow> string \<Rightarrow> exn + spot" where
  "parse_spot_page web url =
     (case web url of
        None \<Rightarrow> Inl FetchError
      | Some pg \<Rightarrow>
          (case spot_name pg url of
             Inl e \<Rightarrow> Inl e
           | Inr n \<Rightarrow> Inr (normalize_loop field_names (extract_spot pg n))))"

section \<open>Countries and zones\<close>

datatype zone =
  Zone (zone_name: string) (zone_url: string) (zone_about: string) (zone_at_a_glance: string)
       (zone_seasons: "string dict dict") (zone_additional_map: "string option")
       (surf_spots: "spot list") (sub_zones: "zone list")

definition is_leaf :: "zone \<Rightarrow> bool" where
  "is_leaf z = (sub_zones z = [])"

definition set_surf_spots :: "zone \<Rightarrow> spot list \<Rightarrow> zone" where
  \<comment> \<open>the assignment \<open>z.surf_spots = spots\<close>\<close>
  "set_surf_spots z spots =
     Zone (zone_name z) (zone_url z) (zone_about z) (zone_at_a_glance z) (zone_seasons z)
          (zone_additional_map z) spots (sub_zones z)"

definition set_sub_zones :: "zone \<Rightarrow> zone list \<Rightarrow> zone" where
  "set_sub_zones z subs =
     Zone (zone_name z) (zone_url z) (zone_about z) (zone_at_a_glance z) (zone_seasons z)
          (zone_additional_map z) (surf_spots z) subs"

text \<open>
  The messages that report a failure. Progress and debugging output is not modelled.
\<close>

datatype log_entry =
    Warn_spot string string exn
  | Warn_zone string string exn
  | Error_country string exn

definition node_name :: "page \<Rightarrow> string \<Rightarrow> exn + string" where
  "node_name pg url =
     (case (case pg_title pg of
              Some ts \<Rightarrow> Inr (get_text_strip ts)
            | None \<Rightarrow> second_last (split_on CHR ''/'' url)) of
        Inl e \<Rightarrow> Inl e
      | Inr title \<Rightarrow>
          if title \<noteq> [] then Inr (before_sep '' - '' title)
          else second_last (split_on CHR ''/'' url))"

definition parse_about :: "page \<Rightarrow> string" where
  "parse_about pg =
     (case pg_about pg of
        None \<Rightarrow> []
      | Some p_inline \<Rightarrow>
          (let about_text = (case p_inline of Some ts \<Rightarrow> clean_text (get_text ts) | None \<Rightarrow> [])
           in if about_text \<noteq> [] \<and> \<not> startswith (lower about_text) ''wanna add some info''
              then about_text else []))"

definition parse_at_a_glance :: "page \<Rightarrow> bool \<Rightarrow> string" where
  "parse_at_a_glance pg is_country =
     (if is_country
      then (case pg_infos pg of
              None \<Rightarrow> []
            | Some ts \<Rightarrow>
                (let info_text = clean_text (get_text_sep_strip '' '' ts)
                 in if info_text \<noteq> [] \<and> \<not> contains (lower info_text) ''automatic build''
                    then info_text else []))
      else [])"

definition parse_seasons :: "page \<Rightarrow> exn + string dict dict" where
  "parse_seasons pg =
     (case pg_seasons_table pg of None \<Rightarrow> Inr [] | Some t \<Rightarrow> parse_seasons_table t ''bi'')"

definition parse_node_header :: "page \<Rightarrow> string \<Rightarrow> bool \<Rightarrow> exn + zone" where
  \<comment> \<open>the node's own data, before its children are parsed\<close>
  "parse_node_header pg url is_country =
     (case node_name pg url of
        Inl e \<Rightarrow> Inl e
      | Inr n \<Rightarrow>
          (case parse_seasons pg of
             Inl e \<Rightarrow> Inl e
           | Inr ss \<Rightarrow>
               Inr (Zone n url (parse_about pg) (parse_at_a_glance pg is_country) ss
                         (pg_additional_map pg) [] [])))"

fun discover_links :: "link_row list \<Rightarrow> (string \<times> string) list" where
  "discover_links [] = []"
| "discover_links (None # rows) = discover_links rows"
| "discover_links (Some (ts, link_url) # rows) = (clean_text (get_text ts), link_url) # discover_links rows"

fun spots_loop ::
  "web \<Rightarrow> (string \<times> string) list \<Rightarrow> spot list \<times> log_entry list \<Rightarrow> spot list \<times> log_entry list" where
  "spots_loop web [] st = st"
| "spots_loop web ((s_name, s_url) # rest) (spots, log) =
     (case parse_spot_page web s_url of
        Inr sp \<Rightarrow> spots_loop web rest (spots @ [sp], log)
      | Inl e \<Rightarrow> spots_loop web rest (spots, log @ [Warn_spot s_name s_url e]))"

fun zones_loop ::
  "(string \<Rightarrow> log_entry list \<times> (exn + zone)) \<Rightarrow> (string \<times> string) list \<Rightarrow>
   zone list \<times> log_entry list \<Rightarrow> zone list \<times> log_entry list" where
  \<comment> \<open>\<open>parse\<close> is the recursive call on a sub-zone address; what it logged comes first\<close>
  "zones_loop parse [] st = st"
| "zones_loop parse ((z_name, z_url) # rest) (subs, log) =
     (case parse z_url of
        (child_log, Inr sub_zone) \<Rightarrow> zones_loop parse rest (subs @ [sub_zone], log @ child_log)
      | (child_log, Inl e) \<Rightarrow> zones_loop parse rest (subs, log @ child_log @ [Warn_zone z_name z_url e]))"

text \<open>
  The first argument bounds the depth of the recursion, as the interpreter's recursion
  limit does: a call beyond it raises \<open>RecursionError\<close>. The result pairs what was logged
  with the node or the exception raised.
\<close>

fun parse_country_or_zone_page ::
  "nat \<Rightarrow> web \<Rightarrow> string \<Rightarrow> bool \<Rightarrow> log_entry list \<times> (exn + zone)" where
  "parse_country_or_zone_page 0 web url is_country = ([], Inl RecursionError)"
| "parse_country_or_zone_page (Suc depth) web url is_country =
     (case web url of
        None \<Rightarrow> ([], Inl FetchError)
      | Some pg \<Rightarrow>
          (case parse_node_header pg url is_country of
             Inl e \<Rightarrow> ([], Inl e)
           | Inr z \<Rightarrow>
               (let zones_list = discover_links (pg_zone_rows pg);
                    spots_list = discover_links (pg_spot_rows pg);
                    (spots, log1) = spots_loop web spots_list ([], []);
                    (subs, log2) =
                      zones_loop (\<lambda>z_url. parse_country_or_zone_page depth web z_url False)
                        zones_list ([], log1)
                in (log2, Inr (set_sub_zones (set_surf_spots z spots) subs)))))"

text \<open>The results that are not exceptions, in their order.\<close>

fun successes :: "(exn + 'a) list \<Rightarrow> 'a list" where
  "successes [] = []"
| "successes (Inr x # rs) = x # successes rs"
| "successes (Inl e # rs) = successes rs"

section \<open>The home page\<close>

definition BASE_URL :: string where
  "BASE_URL = ''https://www.wannasurf.com''"

fun continents_loop ::
  "continent_h2 list \<Rightarrow> (string \<times> string) list dict \<Rightarrow> (string \<times> string) list dict" where
  "continents_loop [] continents = continents"
| "continents_loop (h2 # rest) continents =
     (let continent_name =
            (case h2_link h2 of
               Some ts \<Rightarrow> clean_text (get_text ts)
             | None \<Rightarrow> clean_text (get_text (h2_text h2)));
          continent_countries =
            (case h2_countries h2 of
               None \<Rightarrow> []
             | Some links \<Rightarrow> map (\<lambda>(ts, c_url). (clean_text (get_text ts), c_url)) links)
      in continents_loop rest (AList.update continent_name continent_countries continents))"

definition parse_homepage :: "web \<Rightarrow> exn + (string \<times> string) list dict" where
  "parse_homepage web =
     (case web (BASE_URL @ ''/'') of
        None \<Rightarrow> Inl FetchError
      | Some pg \<Rightarrow> Inr (continents_loop (pg_continents pg) []))"

section \<open>Sheet and file names\<close>

definition is_word_char :: "char \<Rightarrow> bool" where
  \<comment> \<open>the class \<open>[A-Za-z0-9_]\<close>\<close>
  "is_word_char c =
     (let n = (of_char c :: nat) in is_alpha c \<or> (48 \<le> n \<and> n \<le> 57) \<or> c = CHR ''_'')"

fun sanitize_from :: "bool \<Rightarrow> string \<Rightarrow> string" where
  \<comment> \<open>the flag says that the character before was replaced too\<close>
  "sanitize_from in_run [] = []"
| "sanitize_from in_run (c # cs) =
     (if is_word_char c then c # sanitize_from False cs
      else if in_run then sanitize_from True cs
      else CHR ''_'' # sanitize_from True cs)"

definition sanitize :: "string \<Rightarrow> string" where
  \<comment> \<open>\<open>re.sub(r"[^A-Za-z0-9_]+", "_", s)\<close>\<close>
  "sanitize s = sanitize_from False s"

definition digit_char :: "nat \<Rightarrow> char" where
  "digit_char d = char_of (48 + d)"

fun str_nat :: "nat \<Rightarrow> string" where
  \<comment> \<open>the decimal digits of a number, as an f-string writes it\<close>
  "str_nat n = (if n < 10 then [digit_char n] else str_nat (n div 10) @ [digit_char (n mod 10)])"

declare str_nat.simps [simp del]

definition suffixed :: "string \<Rightarrow> nat \<Rightarrow> string" where
  \<comment> \<open>\<open>f"{base[:28]}_{suffix}"\<close>\<close>
  "suffixed base suffix = take 28 base @ ''_'' @ str_nat suffix"

function unique_loop :: "string list \<Rightarrow> string \<Rightarrow> string \<Rightarrow> nat \<Rightarrow> string" where
  \<comment> \<open>\<open>while sheet_name in created_sheets\<close>\<close>
  "unique_loop created_sheets base sheet_name suffix =
     (if sheet_name \<in> set created_sheets
      then unique_loop created_sheets base (suffixed base suffix) (suffix + 1)
      else sheet_name)"
  by pat_completeness auto
termination
proof (relation "measure (\<lambda>(created_sheets, base, sheet_name, suffix).
          (if sheet_name \<in> set created_sheets then 1 else 0)
          + card {k. suffix \<le> k \<and> suffixed base k \<in> set created_sheets})")
  show "wf (measure (\<lambda>(created_sheets, base, sheet_name, suffix).
          (if sheet_name \<in> set created_sheets then 1 else 0)
          + card {k. suffix \<le> k \<and> suffixed base k \<in> set created_sheets}))"
    by simp
next
  fix created_sheets :: "string list" and base sheet_name :: string and suffix :: nat
  assume taken: "sheet_name \<in> set created_sheets"
  have digit_inj: "digit_char a = digit_char b \<Longrightarrow> a < 10 \<Longrightarrow> b < 10 \<Longrightarrow> a = b" for a b
  proof -
    assume e: "digit_char a = digit_char b" and a: "a < 10" and b: "b < 10"
    from e have "(of_char (char_of (48 + a)) :: nat) = of_char (char_of (48 + b))"
      by (simp add: digit_char_def)
    with a b show "a = b" by simp
  qed
  have str_inj: "str_nat a = str_nat b \<Longrightarrow> a = b" for a b
  proof (induction a arbitrary: b rule: str_nat.induct)
    case (1 n)
    show ?case
    proof (cases "n < 10")
      case True
      with "1.prems" have s: "[digit_char n] = str_nat b" by (simp add: str_nat.simps [of n])
      have "b < 10"
      proof (rule ccontr)
        assume "\<not> b < 10"
        then have "str_nat b = str_nat (b div 10) @ [digit_char (b mod 10)]"
          by (simp add: str_nat.simps [of b])
        with s have "str_nat (b div 10) = []" by simp
        then show False by (simp add: str_nat.simps [of "b div 10"] split: if_splits)
      qed
      with s have de: "digit_char n = digit_char b" by (simp add: str_nat.simps [of b])
      from de True \<open>b < 10\<close> show ?thesis by (rule digit_inj)
    next
      case False
      then have n: "str_nat n = str_nat (n div 10) @ [digit_char (n mod 10)]"
        by (simp add: str_nat.simps [of n])
      have "\<not> b < 10"
      proof
        assume "b < 10"
        then have "str_nat b = [digit_char b]" by (simp add: str_nat.simps [of b])
        with n "1.prems" have "str_nat (n div 10) = []" by simp
        then show False by (simp add: str_nat.simps [of "n div 10"] split: if_splits)
      qed
      then have b: "str_nat b = str_nat (b div 10) @ [digit_char (b mod 10)]"
        by (simp add: str_nat.simps [of b])
      from n b "1.prems" have e1: "str_nat (n div 10) = str_nat (b div 10)"
        and e2: "digit_char (n mod 10) = digit_char (b mod 10)" by simp_all
      from "1.IH" [OF False e1] have "n div 10 = b div 10" .
      moreover from e2 have "n mod 10 = b mod 10" by (rule digit_inj) simp_all
      ultimately show ?thesis by (metis div_mult_mod_eq)
    qed
  qed
  have inj: "inj (suffixed base)"
    by (rule injI) (auto simp: suffixed_def dest: str_inj)
  let ?S = "\<lambda>s. {k. s \<le> k \<and> suffixed base k \<in> set created_sheets}"
  have fin: "finite (?S s)" for s
  proof -
    have "?S s \<subseteq> suffixed base -` set created_sheets" by auto
    moreover have "finite (suffixed base -` set created_sheets)"
      using inj by (simp add: finite_vimageI)
    ultimately show ?thesis by (rule finite_subset)
  qed
  have step: "(if suffixed base suffix \<in> set created_sheets then 1 else 0) + card (?S (suffix + 1))
              = card (?S suffix)"
  proof (cases "suffixed base suffix \<in> set created_sheets")
    case True
    then have "?S suffix = insert suffix (?S (suffix + 1))" by (auto simp: le_Suc_eq)
    moreover have "suffix \<notin> ?S (suffix + 1)" by simp
    ultimately show ?thesis using True fin [of "suffix + 1"] by simp
  next
    case False
    then have "?S suffix = ?S (suffix + 1)"
      by (auto simp: Suc_le_eq) (metis le_neq_implies_less)
    with False show ?thesis by simp
  qed
  show "((created_sheets, base, suffixed base suffix, suffix + 1),
         (created_sheets, base, sheet_name, suffix))
        \<in> measure (\<lambda>(created_sheets, base, sheet_name, suffix).
            (if sheet_name \<in> set created_sheets then 1 else 0)
            + card {k. suffix \<le> k \<and> suffixed base k \<in> set created_sheets})"
    using taken step by simp
qed

declare unique_loop.simps [simp del]

definition unique_sheet_name :: "string list \<Rightarrow> string \<Rightarrow> string" where
  \<comment> \<open>the sanitized, truncated name, made different from the names in use\<close>
  "unique_sheet_name created_sheets z_name =
     (let sheet_name = take 31 (sanitize z_name)
      in unique_loop created_sheets sheet_name sheet_name 1)"

section \<open>The workbook of a continent\<close>

text \<open>
  A cell holds a string or a number. A sheet is its name and its rows, each the cells
  written from column 0 on; a workbook is its sheets in the order they are added. The
  writer itself is outside the program: every name is taken as it is passed to it.
\<close>

datatype xl = Str string | Num nat

record sheet =
  sheet_name :: string
  sheet_rows :: "xl list list"

definition season_metrics :: "(string \<times> string) list" where
  "season_metrics =
     [(''best_surfing_season'', ''best surfing''),
      (''typical_swell_size'', ''Typical Swell Size''),
      (''surf_equipment'', ''Surf Equipment''),
      (''water_temp'', ''Water temp.''),
      (''air_temp'', ''Air temp.'')]"

definition season_cells :: "zone \<Rightarrow> xl list" where
  "season_cells z = map (\<lambda>(metric_key, display). Str (format_seasons (zone_seasons z) metric_key)) season_metrics"

definition country_sheet :: "string \<Rightarrow> zone dict \<Rightarrow> sheet" where
  "country_sheet continent countries =
     \<lparr>sheet_name = ''Country'',
      sheet_rows =
        map Str [''country'', ''continent'', ''about'', ''at a glance'', ''seasons'', [], [], [], []]
        # map Str ([[], [], [], []] @ map snd season_metrics)
        # map (\<lambda>(country_name, zone_obj).
                 [Str country_name, Str continent,
                  Str (if zone_about zone_obj \<noteq> [] then zone_about zone_obj else ''empty''),
                  Str (if zone_at_a_glance zone_obj \<noteq> [] then zone_at_a_glance zone_obj else ''empty'')]
                 @ season_cells zone_obj) countries\<rparr>"

definition zone_row :: "string \<Rightarrow> zone \<Rightarrow> xl list" where
  \<comment> \<open>a row of the zones sheet; the first cell is the country\<close>
  "zone_row country_name zone_obj =
     [Str country_name, Str (zone_name zone_obj), Num (length (surf_spots zone_obj)),
      Num (length (sub_zones zone_obj)),
      Str (if zone_about zone_obj \<noteq> [] then zone_about zone_obj else ''empty''),
      Str ''empty'']
     @ season_cells zone_obj"

definition zones_sheet :: "zone dict \<Rightarrow> sheet" where
  "zones_sheet countries =
     \<lparr>sheet_name = ''Zones'',
      sheet_rows =
        map Str [''country'', ''Zones (count)'', ''Surf Spots'', ''Sub zones'', ''about'',
                 ''at a glance'', ''seasons'', [], [], [], []]
        # map Str ([[], [], [], [], [], []] @ map snd season_metrics)
        # concat (map (\<lambda>(country_name, country_zone).
                    map (zone_row country_name) (sub_zones country_zone)) countries)\<rparr>"

definition nested_zones :: "zone dict \<Rightarrow> (string \<times> zone) list" where
  \<comment> \<open>the zones of the zones sheet that have sub-zones\<close>
  "nested_zones countries =
     concat (map (\<lambda>(country_name, country_zone).
               concat (map (\<lambda>zone_obj. if sub_zones zone_obj \<noteq> [] then [(zone_name zone_obj, zone_obj)] else [])
                        (sub_zones country_zone))) countries)"

definition sub_zone_row :: "zone \<Rightarrow> zone \<Rightarrow> xl list" where
  "sub_zone_row z_obj sub_zone =
     [Str (zone_name z_obj), Str (zone_name sub_zone), Num (length (surf_spots sub_zone)),
      Num (length (sub_zones sub_zone)),
      Str (if zone_about sub_zone \<noteq> [] then zone_about sub_zone else ''empty'')]
     @ season_cells sub_zone"

definition sub_zone_rows :: "zone \<Rightarrow> xl list list" where
  "sub_zone_rows z_obj =
     map Str [''Zone'', ''Zones (count)'', ''Surf Spots'', ''Sub zones'', ''about'', ''seasons'',
              [], [], [], []]
     # map Str ([[], [], [], [], []] @ map snd season_metrics)
     # map (sub_zone_row z_obj) (sub_zones z_obj)"

text \<open>The state of a workbook under construction: its sheets and the set \<open>created_sheets\<close>.\<close>

type_synonym book = "sheet list \<times> string list"

fun sub_sheets_loop :: "(string \<times> zone) list \<Rightarrow> book \<Rightarrow> book" where
  "sub_sheets_loop [] bk = bk"
| "sub_sheets_loop ((z_name, z_obj) # rest) (sheets, created_sheets) =
     (let sheet_name = unique_sheet_name created_sheets z_name
      in sub_sheets_loop rest
           (sheets @ [\<lparr>sheet_name = sheet_name, sheet_rows = sub_zone_rows z_obj\<rparr>],
            sheet_name # created_sheets))"

definition leaf_zones :: "zone \<Rightarrow> (string \<times> zone) list" where
  "leaf_zones country_zone =
     (if sub_zones country_zone = [] then [(zone_name country_zone, country_zone)]
      else concat (map (\<lambda>z_obj.
                     if sub_zones z_obj = [] then [(zone_name z_obj, z_obj)]
                     else concat (map (\<lambda>sub_z. if sub_zones sub_z = [] then [(zone_name sub_z, sub_z)] else [])
                                    (sub_zones z_obj)))
                   (sub_zones country_zone)))"

definition spot_headers :: "string list" where
  "spot_headers =
     [''zone'', ''Surf Spots (count)'', ''Distance'', ''Walk'', ''Easy to find?'',
      ''Public access?'', ''Special access'', ''Wave quality'', ''Experience'',
      ''Frequency'', ''Type'', ''Direction'', ''Bottom'', ''Power'', ''Normal length'',
      ''Good day length'', ''Good swell direction'', ''Good wind direction'',
      ''Good swell direction'', ''Best tide position'', ''Best tide movement'',
      ''Additional Information'', ''Latitude'', ''Longitude'']"

definition spot_row :: "string \<Rightarrow> spot \<Rightarrow> xl list" where
  "spot_row z_name sp =
     map Str
       [z_name, name sp, distance sp, walk sp, easy_to_find sp, public_access sp,
        special_access sp, wave_quality sp, experience sp, frequency sp, spot_type sp,
        direction sp, bottom sp, spot_power sp, normal_length sp, good_day_length sp,
        good_swell_direction sp, good_wind_direction sp, swell_size sp, best_tide_position sp,
        best_tide_movement sp, additional_information sp, latitude sp, longitude sp]"

definition spot_sheet_rows :: "string \<Rightarrow> zone \<Rightarrow> xl list list" where
  "spot_sheet_rows z_name leaf_zone = map Str spot_headers # map (spot_row z_name) (surf_spots leaf_zone)"

fun leaf_sheets_loop :: "(string \<times> zone) list \<Rightarrow> book \<Rightarrow> book" where
  "leaf_sheets_loop [] bk = bk"
| "leaf_sheets_loop ((z_name, leaf_zone) # rest) (sheets, created_sheets) =
     (let sheet_name = unique_sheet_name created_sheets z_name
      in leaf_sheets_loop rest
           (sheets @ [\<lparr>sheet_name = sheet_name, sheet_rows = spot_sheet_rows z_name leaf_zone\<rparr>],
            sheet_name # created_sheets))"

fun countries_leaf_loop :: "zone dict \<Rightarrow> book \<Rightarrow> book" where
  "countries_leaf_loop [] bk = bk"
| "countries_leaf_loop ((country_name, country_zone) # rest) bk =
     countries_leaf_loop rest (leaf_sheets_loop (leaf_zones country_zone) bk)"

definition workbook_sheets :: "string \<Rightarrow> zone dict \<Rightarrow> sheet list" where
  \<comment> \<open>the body of the loop over the continents\<close>
  "workbook_sheets continent countries =
     fst (countries_leaf_loop countries
            (sub_sheets_loop (nested_zones countries)
               ([country_sheet continent countries, zones_sheet countries], [''Zones'', ''Country''])))"

definition build_excel_workbook :: "zone dict dict \<Rightarrow> (string \<times> sheet list) list" where
  \<comment> \<open>one workbook for each continent: its file name in the output directory and its sheets\<close>
  "build_excel_workbook continents_data =
     map (\<lambda>(continent, countries).
            (take 50 (sanitize continent) @ ''.xlsx'', workbook_sheets continent countries))
         continents_data"

section \<open>The driver\<close>

definition csv_header :: "string list" where
  "csv_header =
     [''surf spot name'', ''Distance'', ''Walk'', ''Easy to find?'',
      ''Public access?'', ''Special access'', ''Wave quality'', ''Experience'',
      ''Frequency'', ''Type'', ''Direction'', ''Bottom'', ''Power'',
      ''Normal length'', ''Good day length'', ''Good swell direction'',
      ''Good wind direction'', ''Swell size'', ''Best tide position'',
      ''Best tide movement'', ''Additional Information'', ''Latitude'', ''Longitude'']"

definition to_csv :: "zone \<Rightarrow> string \<times> string list list" where
  \<comment> \<open>the file name in the output directory and the rows written\<close>
  "to_csv z = (take 50 (sanitize (zone_name z)) @ ''.csv'', csv_header # map to_row (surf_spots z))"

definition limit_spots :: "bool \<Rightarrow> zone \<Rightarrow> zone" where
  \<comment> \<open>\<open>if sample and len(z.surf_spots) > 5: z.surf_spots = z.surf_spots[:5]\<close>\<close>
  "limit_spots sample z =
     (if sample \<and> length (surf_spots z) > 5 then set_surf_spots z (take 5 (surf_spots z)) else z)"

definition dump_csvs :: "bool \<Rightarrow> zone \<Rightarrow> zone \<times> (string \<times> string list list) list" where
  \<comment> \<open>the CSV step of the driver on a parsed country: the country as the step leaves it
      (the zones it processes are the objects in the country's own list) and the files written\<close>
  "dump_csvs sample country_zone =
     (if sub_zones country_zone \<noteq> []
      then (let count = (if sample then 1 else length (sub_zones country_zone));
                processed = map (limit_spots sample) (take count (sub_zones country_zone))
            in (set_sub_zones country_zone (processed @ drop count (sub_zones country_zone)),
                map to_csv processed))
      else (let limited = limit_spots sample country_zone in (limited, [to_csv limited])))"

record run =
  run_data :: "zone dict"
  run_files :: "(string \<times> string list list) list"
  run_log :: "log_entry list"

fun countries_loop :: "bool \<Rightarrow> nat \<Rightarrow> web \<Rightarrow> (string \<times> string) list \<Rightarrow> run \<Rightarrow> run" where
  "countries_loop sample depth web [] r = r"
| "countries_loop sample depth web ((country_name, country_url) # rest) r =
     (case parse_country_or_zone_page depth web country_url True of
        (plog, Inl e) \<Rightarrow>
          countries_loop sample depth web rest
            (r\<lparr>run_log := run_log r @ plog @ [Error_country country_name e]\<rparr>)
      | (plog, Inr country_zone) \<Rightarrow>
          (let (stored, files) = dump_csvs sample country_zone
           in countries_loop sample depth web rest
                \<lparr>run_data = AList.update country_name stored (run_data r),
                 run_files = run_files r @ files,
                 run_log = run_log r @ plog\<rparr>))"

record outcome =
  continents_data :: "zone dict dict"
  csv_files :: "(string \<times> string list list) list"
  workbooks :: "(string \<times> sheet list) list"
  messages :: "log_entry list"

fun continents_run ::
  "bool \<Rightarrow> nat \<Rightarrow> web \<Rightarrow> (string \<times> string) list dict \<Rightarrow>
   zone dict dict \<times> (string \<times> string list list) list \<times> log_entry list \<Rightarrow>
   zone dict dict \<times> (string \<times> string list list) list \<times> log_entry list" where
  "continents_run sample depth web [] st = st"
| "continents_run sample depth web ((continent_name, countries) # rest) (data, files, log) =
     (let country_iter = (if sample then take 1 countries else countries);
          r = countries_loop sample depth web country_iter \<lparr>run_data = [], run_files = [], run_log = []\<rparr>
      in continents_run sample depth web rest
           (AList.update continent_name (run_data r) data, files @ run_files r, log @ run_log r))"

definition main :: "bool \<Rightarrow> nat \<Rightarrow> web \<Rightarrow> exn + outcome" where
  "main sample depth web =
     (case parse_homepage web of
        Inl e \<Rightarrow> Inl e
      | Inr continents_map \<Rightarrow>
          (let (data, files, log) = continents_run sample depth web continents_map ([], [], [])
           in Inr \<lparr>continents_data = data, csv_files = files,
                   workbooks = build_excel_workbook data, messages = log\<rparr>))"

section \<open>Example documents\<close>

text \<open>A document in which every query finds nothing.\<close>

definition blank_page :: page where
  "blank_page =
     \<lparr>pg_title = None, pg_h3_items = [], pg_left_col = None, pg_right_col = None,
      pg_latitude = None, pg_longitude = None, pg_about = None, pg_infos = None,
      pg_seasons_table = None, pg_additional_map = None, pg_zone_rows = [], pg_spot_rows = [],
      pg_continents = []\<rparr>"

text \<open>A labelled paragraph with one text node for the label and one for the value.\<close>

definition labelled :: "string \<Rightarrow> string \<Rightarrow> para" where
  "labelled l v = \<lparr>p_label = Some [l], p_rest = [v]\<rparr>"

text \<open>A spot page with a title, an access table, a characteristics column and a latitude.\<close>

definition pipeline_page :: page where
  "pipeline_page =
     blank_page
       \<lparr>pg_title := Some [''Pipeline - Surfing in Oahu''],
        pg_h3_items :=
          [\<lparr>h3_text = [''Access''], h3_next_table = Some [labelled ''Distance:'' '' Short  walk '', labelled ''Walk'' []],
            h3_next_inline_p = None\<rparr>,
           \<lparr>h3_text = [''Surf Spot Characteristics''], h3_next_table = None, h3_next_inline_p = None\<rparr>],
        pg_left_col := Some [H5 [''Wave''], P (labelled ''Type:'' ''Reef-coral'')],
        pg_latitude := Some '' 21.66 ''\<rparr>"

text \<open>The warnings that the loop over the spot links logs.\<close>

definition spot_warnings :: "web \<Rightarrow> (string \<times> string) list \<Rightarrow> log_entry list" where
  "spot_warnings web links =
     concat (map (\<lambda>(s_name, s_url).
               case parse_spot_page web s_url of Inl e \<Rightarrow> [Warn_spot s_name s_url e] | Inr sp \<Rightarrow> []) links)"

text \<open>
  A country page with three zone links and three spot links. On the site the second zone
  and the second spot cannot be fetched; the other four addresses give blank documents.
\<close>

definition hawaii_url :: string where
  "hawaii_url = ''https://www.wannasurf.com/spot/Hawaii/index.html''"

definition hawaii_page :: page where
  "hawaii_page =
     blank_page
       \<lparr>pg_title := Some [''Hawaii - Surfing in Hawaii''],
        pg_zone_rows :=
          [Some ([''Oahu''], ''https://www.wannasurf.com/spot/Hawaii/Oahu/index.html''),
           Some ([''Maui''], ''https://www.wannasurf.com/spot/Hawaii/Maui/index.html''),
           Some ([''Kauai''], ''https://www.wannasurf.com/spot/Hawaii/Kauai/index.html'')],
        pg_spot_rows :=
          [Some ([''Pipeline''], ''https://www.wannasurf.com/spot/Hawaii/Pipeline/index.html''),
           Some ([''Jaws''], ''https://www.wannasurf.com/spot/Hawaii/Jaws/index.html''),
           Some ([''Hanalei''], ''https://www.wannasurf.com/spot/Hawaii/Hanalei/index.html'')]\<rparr>"

definition hawaii_web :: web where
  "hawaii_web u =
     (if u = hawaii_url then Some hawaii_page
      else if u \<in> set [''https://www.wannasurf.com/spot/Hawaii/Oahu/index.html'',
                        ''https://www.wannasurf.com/spot/Hawaii/Kauai/index.html'',
                        ''https://www.wannasurf.com/spot/Hawaii/Pipeline/index.html'',
                        ''https://www.wannasurf.com/spot/Hawaii/Hanalei/index.html'']
      then Some blank_page
      else None)"

text \<open>The spot of the given name with every other field marked as missing.\<close>

definition all_empty :: "string \<Rightarrow> spot" where
  "all_empty n =
     \<lparr>name = n, distance = ''empty'', walk = ''empty'', easy_to_find = ''empty'', public_access = ''empty'',
      special_access = ''empty'', wave_quality = ''empty'', experience = ''empty'', frequency = ''empty'', spot_type = ''empty'',
      direction = ''empty'', bottom = ''empty'', spot_power = ''empty'', normal_length = ''empty'', good_day_length = ''empty'',
      good_swell_direction = ''empty'', good_wind_direction = ''empty'', swell_size = ''empty'',
      best_tide_position = ''empty'', best_tide_movement = ''empty'', additional_information = ''empty'',
      latitude = ''empty'', longitude = ''empty''\<rparr>"

text \<open>Two zones of one country whose names are sanitized to the same sheet name.\<close>

definition cote_country :: zone where
  "cote_country =
     Zone ''France'' ''https://www.wannasurf.com/spot/Europe/France/index.html'' [] [] [] None []
       [Zone ''Cote Sud'' ''https://www.wannasurf.com/spot/Europe/France/Cote_Sud/index.html'' [] [] [] None [] [],
        Zone ''Cote-Sud'' ''https://www.wannasurf.com/spot/Europe/France/Cote-Sud/index.html'' [] [] [] None [] []]"

text \<open>
  A country whose only chain of zones is three deep: the zone at the bottom has no sub-zones
  and owns one spot. \<open>deep_web\<close> is a site from which the parser builds this country.
\<close>

definition reef_zone :: zone where
  "reef_zone =
     Zone ''Reef'' ''https://www.wannasurf.com/spot/Deepland/North/Coast/Reef/index.html'' [] [] [] None
       [all_empty ''Outer''] []"

definition deep_country :: zone where
  "deep_country =
     Zone ''Deepland'' ''https://www.wannasurf.com/spot/Deepland/index.html'' [] [] [] None []
       [Zone ''North'' ''https://www.wannasurf.com/spot/Deepland/North/index.html'' [] [] [] None []
          [Zone ''Coast'' ''https://www.wannasurf.com/spot/Deepland/North/Coast/index.html'' [] [] [] None []
             [reef_zone]]]"

definition deep_web :: web where
  "deep_web u =
     (if u = ''https://www.wannasurf.com/spot/Deepland/index.html''
      then Some (blank_page\<lparr>pg_zone_rows := [Some ([''North''], ''https://www.wannasurf.com/spot/Deepland/North/index.html'')]\<rparr>)
      else if u = ''https://www.wannasurf.com/spot/Deepland/North/index.html''
      then Some (blank_page\<lparr>pg_zone_rows := [Some ([''Coast''], ''https://www.wannasurf.com/spot/Deepland/North/Coast/index.html'')]\<rparr>)
      else if u = ''https://www.wannasurf.com/spot/Deepland/North/Coast/index.html''
      then Some (blank_page\<lparr>pg_zone_rows := [Some ([''Reef''], ''https://www.wannasurf.com/spot/Deepland/North/Coast/Reef/index.html'')]\<rparr>)
      else if u = ''https://www.wannasurf.com/spot/Deepland/North/Coast/Reef/index.html''
      then Some (blank_page\<lparr>pg_spot_rows := [Some ([''Outer''], ''https://www.wannasurf.com/spot/Deepland/North/Coast/Reef/Outer/index.html'')]\<rparr>)
      else if u = ''https://www.wannasurf.com/spot/Deepland/North/Coast/Reef/Outer/index.html''
      then Some blank_page
      else None)"

text \<open>A country with no zones and six spots, and a site with it as the only country.\<close>

definition six_spots :: zone where
  "six_spots =
     Zone ''Fiji'' ''https://www.wannasurf.com/spot/Fiji/index.html'' [] [] [] None
       [all_empty ''a'', all_empty ''b'', all_empty ''c'', all_empty ''d'', all_empty ''e'', all_empty ''f''] []"

definition fiji_web :: web where
  "fiji_web u =
     (if u = ''https://www.wannasurf.com/''
      then Some (blank_page\<lparr>pg_continents :=
             [\<lparr>h2_link = Some [''Oceania''], h2_text = [''Oceania''],
               h2_countries = Some [([''Fiji''], ''https://www.wannasurf.com/spot/Fiji/index.html'')]\<rparr>]\<rparr>)
      else if u = ''https://www.wannasurf.com/spot/Fiji/index.html''
      then Some (blank_page\<lparr>pg_spot_rows :=
             [Some ([''a''], ''https://www.wannasurf.com/spot/Fiji/a/index.html''),
              Some ([''b''], ''https://www.wannasurf.com/spot/Fiji/b/index.html''),
              Some ([''c''], ''https://www.wannasurf.com/spot/Fiji/c/index.html''),
              Some ([''d''], ''https://www.wannasurf.com/spot/Fiji/d/index.html''),
              Some ([''e''], ''https://www.wannasurf.com/spot/Fiji/e/index.html''),
              Some ([''f''], ''https://www.wannasurf.com/spot/Fiji/f/index.html'')]\<rparr>)
      else Some blank_page)"

section \<open>Invariants used in the proofs\<close>


text \<open>
  A stored zone comes from the parser when it is what the CSV step of the driver leaves of
  the result of parsing some country address.
\<close>

definition from_parse :: "bool \<Rightarrow> nat \<Rightarrow> web \<Rightarrow> zone \<Rightarrow> bool" where
  "from_parse sample depth web stored =
     (\<exists>country_url plog parsed.
        parse_country_or_zone_page depth web country_url True = (plog, Inr parsed) \<and>
        stored = fst (dump_csvs sample parsed))"

section \<open>Properties of the seasons table decoder\<close>

lemma single_month_headers_none:
  "\<not> list_ex (\<lambda>row. list_ex (\<lambda>c. month_match (get_text_strip (cell_text c))) row) rows
   \<Longrightarrow> single_month_headers rows = []"
  by (induction rows) (auto simp: list_ex_iff filter_empty_conv Let_def)

lemma month_headers_none:
  "\<not> qualifying_header rows fmt \<Longrightarrow> month_headers rows fmt = []"
  by (auto simp: qualifying_header_def month_headers_def single_month_headers_none split: if_splits)

lemma body_rows_loop_keys:
  "fst ` set (body_rows_loop hdrs rows acc) =
     fst ` set acc \<union> (\<lambda>cells. metric_name (hd cells)) ` {cells \<in> set rows. cells \<noteq> []}"
  by (induction rows arbitrary: acc) (auto simp: dom_update)

lemma set_update_subset: "set (AList.update k v al) \<subseteq> insert (k, v) (set al)"
  by (induction al) auto

lemma body_rows_loop_no_columns:
  "\<forall>kv \<in> set acc. snd kv = [] \<Longrightarrow> \<forall>kv \<in> set (body_rows_loop [] rows acc). snd kv = []"
proof (induction rows arbitrary: acc)
  case Nil
  then show ?case by simp
next
  case (Cons cells rows)
  show ?case
  proof (cases "cells = []")
    case True
    with Cons show ?thesis by simp
  next
    case False
    have "\<forall>kv \<in> set (AList.update (metric_name (hd cells)) [] acc). snd kv = []"
      using Cons.prems set_update_subset [of "metric_name (hd cells)" "[]" acc] by auto
    from Cons.IH [OF this] False show ?thesis by simp
  qed
qed

lemma key_jan_feb: "bi_month_key (text_cell ''Jan/Feb'') = ''jan_feb''"
  by code_simp

lemma key_mar_apr: "bi_month_key (text_cell ''Mar/Apr'') = ''mar_apr''"
  by code_simp

lemma metric_best_season: "metric_name (text_cell ''best season'') = ''best_season''"
  by code_simp

lemma star_not_placeholder: "startswith (lower ''3-star.png'') ''wanna-empty'' = False"
  by code_simp

lemma gif_placeholder: "startswith (lower ''wanna-empty-1x1.gif'') ''wanna-empty'' = True"
  by code_simp

text \<open>
  C3. A paired-format table whose second header row holds the cells "Jan/Feb" and
  "Mar/Apr" and whose body has the one row "best season", an image with file name
  "3-star.png" and an image with file name "wanna-empty-1x1.gif" is decoded to
  \<open>{"best_season": {"jan_feb": "3-star.png", "mar_apr": "0"}}\<close>, whatever the first header
  row and the directories of the two images are.
\<close>

theorem parse_seasons_table_paired_example:
  assumes "basename p1 = ''3-star.png''" and "basename p2 = ''wanna-empty-1x1.gif''"
  shows "parse_seasons_table
           \<lparr>thead = Some [h0, [text_cell ''Jan/Feb'', text_cell ''Mar/Apr'']],
            tbody = Some [[text_cell ''best season'', img_cell p1, img_cell p2]]\<rparr> ''bi''
         = Inr [(''best_season'', [(''jan_feb'', ''3-star.png''), (''mar_apr'', ''0'')])]"
proof -
  have v1: "cell_value (img_cell p1) = ''3-star.png''"
    using assms(1) star_not_placeholder by (simp add: cell_value_def img_cell_def)
  have v2: "cell_value (img_cell p2) = ''0''"
    using assms(2) gif_placeholder by (simp add: cell_value_def img_cell_def)
  show ?thesis
    by (simp add: parse_seasons_table_def month_headers_def key_jan_feb key_mar_apr
        metric_best_season v1 v2 enumerate_eq_zip)
qed

theorem parse_seasons_table_paired_example_witness:
  "basename ''/images/3-star.png'' = ''3-star.png'' \<and>
   basename ''/images/wanna-empty-1x1.gif'' = ''wanna-empty-1x1.gif'' \<and>
   parse_seasons_table
     \<lparr>thead = Some [[text_cell []], [text_cell ''Jan/Feb'', text_cell ''Mar/Apr'']],
      tbody = Some [[text_cell ''best season'', img_cell ''/images/3-star.png'',
                     img_cell ''/images/wanna-empty-1x1.gif'']]\<rparr> ''bi''
   = Inr [(''best_season'', [(''jan_feb'', ''3-star.png''), (''mar_apr'', ''0'')])]"
proof -
  have a: "basename ''/images/3-star.png'' = ''3-star.png''"
    by (simp add: basename_def)
  have b: "basename ''/images/wanna-empty-1x1.gif'' = ''wanna-empty-1x1.gif''"
    by (simp add: basename_def)
  from a b parse_seasons_table_paired_example [OF a b] show ?thesis by simp
qed

text \<open>A table without a \<open>thead\<close> makes the decoder raise, whatever its body.\<close>

lemma parse_seasons_table_without_thead:
  "parse_seasons_table \<lparr>thead = None, tbody = Some body_rows\<rparr> months_format = Inl AttributeError"
  by (simp add: parse_seasons_table_def)

text \<open>
  C4, as the claim states it, fails: a table with a single header row has no qualifying
  header row in the paired format, and its metric row still gets an entry in the result.
\<close>

theorem no_header_result_nonempty_counterexample:
  "\<not> qualifying_header [[text_cell ''Months'']] ''bi'' \<and>
   parse_seasons_table
     \<lparr>thead = Some [[text_cell ''Months'']], tbody = Some [[text_cell ''best season'']]\<rparr> ''bi''
   = Inr [(''best_season'', [])] \<and>
   parse_seasons_table
     \<lparr>thead = Some [[text_cell ''Months'']], tbody = Some [[text_cell ''best season'']]\<rparr> ''bi''
   \<noteq> Inr []"
  by (simp add: qualifying_header_def parse_seasons_table_def month_headers_def metric_best_season)

text \<open>
  C4, amended. For a table that has a \<open>thead\<close> and a \<open>tbody\<close> and no qualifying header
  row, in either format, the list of column keys is empty and the decoder returns without
  raising; the result has one entry for the metric of every body row that has cells, each
  mapped to an empty mapping, so it is empty exactly when no body row has cells.
\<close>

theorem parse_seasons_table_no_header:
  assumes "thead t = Some thead_rows" and "tbody t = Some body_rows"
    and "\<not> qualifying_header thead_rows months_format"
  shows "month_headers thead_rows months_format = [] \<and>
         (\<exists>result. parse_seasons_table t months_format = Inr result \<and>
            fst ` set result = (\<lambda>cells. metric_name (hd cells)) ` {cells \<in> set body_rows. cells \<noteq> []} \<and>
            (\<forall>kv \<in> set result. snd kv = []) \<and>
            (result = [] \<longleftrightarrow> (\<forall>cells \<in> set body_rows. cells = [])))"
proof -
  have h: "month_headers thead_rows months_format = []"
    using assms(3) by (rule month_headers_none)
  let ?r = "body_rows_loop [] body_rows []"
  have p: "parse_seasons_table t months_format = Inr ?r"
    using assms(1,2) h by (simp add: parse_seasons_table_def)
  have keys: "fst ` set ?r = (\<lambda>cells. metric_name (hd cells)) ` {cells \<in> set body_rows. cells \<noteq> []}"
    by (simp add: body_rows_loop_keys)
  have vals: "\<forall>kv \<in> set ?r. snd kv = []"
    by (rule body_rows_loop_no_columns) simp
  have "?r = [] \<longleftrightarrow> fst ` set ?r = {}" by simp
  also have "\<dots> \<longleftrightarrow> (\<forall>cells \<in> set body_rows. cells = [])"
    unfolding keys by auto
  finally have emp: "?r = [] \<longleftrightarrow> (\<forall>cells \<in> set body_rows. cells = [])" .
  from h p keys vals emp show ?thesis by blast
qed

theorem parse_seasons_table_no_header_witness:
  "\<not> qualifying_header [[text_cell ''Months'']] ''single'' \<and>
   month_headers [[text_cell ''Months'']] ''single'' = [] \<and>
   (\<exists>result. parse_seasons_table
                \<lparr>thead = Some [[text_cell ''Months'']],
                 tbody = Some [[], [text_cell ''Air temp.'']]\<rparr> ''single'' = Inr result \<and>
       fst ` set result = {''air_temp''} \<and> (\<forall>kv \<in> set result. snd kv = []) \<and> result \<noteq> [])"
proof -
  have q: "\<not> qualifying_header [[text_cell ''Months'']] ''single''"
    by code_simp
  have m: "metric_name (text_cell ''Air temp.'') = ''air_temp''"
    by code_simp
  let ?t = "\<lparr>thead = Some [[text_cell ''Months'']], tbody = Some [[], [text_cell ''Air temp.'']]\<rparr>"
  have "{cells \<in> set [[], [text_cell ''Air temp.'']]. cells \<noteq> []} = {[text_cell ''Air temp.'']}"
    by auto
  with parse_seasons_table_no_header
         [of ?t "[[text_cell ''Months'']]" "[[], [text_cell ''Air temp.'']]" "''single''", OF _ _ q] q m
  show ?thesis by auto
qed

section \<open>Properties of the seasons renderer\<close>

lemma month_labels:
  "map month_label default_months = [''Jan/Feb'', ''Mar/Apr'', ''May/Jun'', ''Jul/Aug'', ''Sep/Oct'', ''Nov/Dec'']"
  by code_simp

lemma season_rows_map:
  "season_rows vals months rows =
     rows @ map (\<lambda>m. month_label m @ '' - '' @
                  (case map_of vals m of None \<Rightarrow> ''empty''
                   | Some v \<Rightarrow> if v = [] \<or> v = ''0'' then ''empty'' else v)) months"
  by (induction months arbitrary: rows) (auto split: option.splits)

lemma format_seasons_lines:
  "format_seasons seasons metric_key =
     join newline (map (\<lambda>m. month_label m @ '' - '' @ value_or_empty seasons metric_key m) default_months)"
proof (cases "map_of seasons metric_key")
  case None
  then show ?thesis
    by (simp add: format_seasons_def value_or_empty_def stored_value_def)
next
  case (Some vals)
  then have "seasons \<noteq> []" by auto
  with Some show ?thesis
    by (simp add: format_seasons_def value_or_empty_def stored_value_def season_rows_map)
qed

lemma month_labels_explicit:
  "map month_label [''jan_feb'', ''mar_apr'', ''may_jun'', ''jul_aug'', ''sep_oct'', ''nov_dec'']
   = [''Jan/Feb'', ''Mar/Apr'', ''May/Jun'', ''Jul/Aug'', ''Sep/Oct'', ''Nov/Dec'']"
  using month_labels by (simp only: default_months_def)

text \<open>
  C5. For every seasons mapping and every metric key, \<open>format_seasons\<close> returns six
  entries joined by newlines, in the order Jan/Feb, Mar/Apr, May/Jun, Jul/Aug, Sep/Oct,
  Nov/Dec, each the column label, " - ", and the stored value or "empty"; a metric or a
  column that the mapping lacks gives "empty". The function only reads the mapping: it
  returns the text and nothing else.
\<close>

theorem format_seasons_fixed_axis:
  "format_seasons seasons metric_key =
     join newline
       [''Jan/Feb - '' @ value_or_empty seasons metric_key ''jan_feb'',
        ''Mar/Apr - '' @ value_or_empty seasons metric_key ''mar_apr'',
        ''May/Jun - '' @ value_or_empty seasons metric_key ''may_jun'',
        ''Jul/Aug - '' @ value_or_empty seasons metric_key ''jul_aug'',
        ''Sep/Oct - '' @ value_or_empty seasons metric_key ''sep_oct'',
        ''Nov/Dec - '' @ value_or_empty seasons metric_key ''nov_dec'']
   \<and> (stored_value seasons metric_key month = None
        \<longrightarrow> value_or_empty seasons metric_key month = ''empty'')
   \<and> (map_of seasons metric_key = None \<longrightarrow> stored_value seasons metric_key month = None)"
proof -
  have "format_seasons seasons metric_key =
     join newline
       [''Jan/Feb - '' @ value_or_empty seasons metric_key ''jan_feb'',
        ''Mar/Apr - '' @ value_or_empty seasons metric_key ''mar_apr'',
        ''May/Jun - '' @ value_or_empty seasons metric_key ''may_jun'',
        ''Jul/Aug - '' @ value_or_empty seasons metric_key ''jul_aug'',
        ''Sep/Oct - '' @ value_or_empty seasons metric_key ''sep_oct'',
        ''Nov/Dec - '' @ value_or_empty seasons metric_key ''nov_dec'']"
    unfolding format_seasons_lines default_months_def using month_labels_explicit by simp
  then show ?thesis
    by (simp add: value_or_empty_def stored_value_def)
qed

theorem format_seasons_fixed_axis_witness:
  "format_seasons [(''water_temp'', [(''jan_feb'', ''cold''), (''jul_aug'', ''warm'')])] ''air_temp''
   = join newline [''Jan/Feb - empty'', ''Mar/Apr - empty'', ''May/Jun - empty'',
                   ''Jul/Aug - empty'', ''Sep/Oct - empty'', ''Nov/Dec - empty'']
   \<and> format_seasons [(''water_temp'', [(''jan_feb'', ''cold''), (''jul_aug'', ''warm'')])] ''water_temp''
   = join newline [''Jan/Feb - cold'', ''Mar/Apr - empty'', ''May/Jun - empty'',
                   ''Jul/Aug - warm'', ''Sep/Oct - empty'', ''Nov/Dec - empty'']"
  using format_seasons_fixed_axis
          [of "[(''water_temp'', [(''jan_feb'', ''cold''), (''jul_aug'', ''warm'')])]" "''air_temp''" "''jan_feb''"]
        format_seasons_fixed_axis
          [of "[(''water_temp'', [(''jan_feb'', ''cold''), (''jul_aug'', ''warm'')])]" "''water_temp''" "''mar_apr''"]
  by (simp add: value_or_empty_def stored_value_def)

text \<open>
  C10. For every seasons mapping and metric key, the six rendered entries have values of
  which none is "0": in every month slot a stored "0" is rendered as "empty", as a missing
  value is.
\<close>

theorem format_seasons_zero_is_empty:
  "\<exists>vs. length vs = 6 \<and>
        format_seasons seasons metric_key =
          join newline (map (\<lambda>(m, v). month_label m @ '' - '' @ v) (zip default_months vs)) \<and>
        (\<forall>i < 6. vs ! i \<noteq> ''0'' \<and>
           (stored_value seasons metric_key (default_months ! i) = Some ''0'' \<longrightarrow> vs ! i = ''empty'') \<and>
           (stored_value seasons metric_key (default_months ! i) = None \<longrightarrow> vs ! i = ''empty''))"
proof -
  let ?vs = "map (value_or_empty seasons metric_key) default_months"
  have len: "length ?vs = 6" by (simp add: default_months_def)
  have z: "zip default_months ?vs = map (\<lambda>m. (m, value_or_empty seasons metric_key m)) default_months"
    by (simp add: zip_map2 zip_same_conv_map)
  have fmt: "format_seasons seasons metric_key =
          join newline (map (\<lambda>(m, v). month_label m @ '' - '' @ v) (zip default_months ?vs))"
    unfolding z format_seasons_lines by (simp add: comp_def)
  have vals: "\<forall>i < 6. ?vs ! i \<noteq> ''0'' \<and>
           (stored_value seasons metric_key (default_months ! i) = Some ''0'' \<longrightarrow> ?vs ! i = ''empty'') \<and>
           (stored_value seasons metric_key (default_months ! i) = None \<longrightarrow> ?vs ! i = ''empty'')"
  proof (intro allI impI)
    fix i :: nat
    assume "i < 6"
    then have "i < length default_months"
      by (simp add: default_months_def)
    then have "?vs ! i = value_or_empty seasons metric_key (default_months ! i)"
      by (rule nth_map)
    then show "?vs ! i \<noteq> ''0'' \<and>
           (stored_value seasons metric_key (default_months ! i) = Some ''0'' \<longrightarrow> ?vs ! i = ''empty'') \<and>
           (stored_value seasons metric_key (default_months ! i) = None \<longrightarrow> ?vs ! i = ''empty'')"
      by (simp add: value_or_empty_def split: option.splits)
  qed
  from len fmt vals show ?thesis by blast
qed

theorem format_seasons_zero_is_empty_witness:
  "stored_value [(''best_surfing_season'', [(''jan_feb'', ''0''), (''mar_apr'', ''3-star.png'')])]
     ''best_surfing_season'' ''jan_feb'' = Some ''0'' \<and>
   format_seasons [(''best_surfing_season'', [(''jan_feb'', ''0''), (''mar_apr'', ''3-star.png'')])]
     ''best_surfing_season''
   = join newline [''Jan/Feb - empty'', ''Mar/Apr - 3-star.png'', ''May/Jun - empty'',
                   ''Jul/Aug - empty'', ''Sep/Oct - empty'', ''Nov/Dec - empty'']"
proof -
  let ?s = "[(''best_surfing_season'', [(''jan_feb'', ''0''), (''mar_apr'', ''3-star.png'')])]"
  from format_seasons_zero_is_empty [of ?s "''best_surfing_season''"]
  obtain vs where len: "length vs = 6"
    and fmt: "format_seasons ?s ''best_surfing_season'' =
          join newline (map (\<lambda>(m, v). month_label m @ '' - '' @ v) (zip default_months vs))"
    and vals: "\<forall>i < 6. vs ! i \<noteq> ''0'' \<and>
           (stored_value ?s ''best_surfing_season'' (default_months ! i) = Some ''0'' \<longrightarrow> vs ! i = ''empty'') \<and>
           (stored_value ?s ''best_surfing_season'' (default_months ! i) = None \<longrightarrow> vs ! i = ''empty'')"
    by blast
  have st: "stored_value ?s ''best_surfing_season'' ''jan_feb'' = Some ''0''"
    by (simp add: stored_value_def)
  have "format_seasons ?s ''best_surfing_season''
        = join newline [''Jan/Feb - empty'', ''Mar/Apr - 3-star.png'', ''May/Jun - empty'',
                        ''Jul/Aug - empty'', ''Sep/Oct - empty'', ''Nov/Dec - empty'']"
    unfolding format_seasons_lines default_months_def using month_labels_explicit
    by (simp add: value_or_empty_def stored_value_def)
  with st show ?thesis by simp
qed

section \<open>Properties of the surf spot parser\<close>

lemma getattr_setattr: "getattr (setattr s g v) f = (if f = g then v else getattr s f)"
  by (cases g; cases f; simp)

lemma name_setattr: "name (setattr s g v) = name s"
  by (cases g) simp_all

lemma normalize_loop_getattr:
  "getattr (normalize_loop fs s) f =
     (if f \<in> set fs \<and> getattr s f = [] then ''empty'' else getattr s f)"
  by (induction fs arbitrary: s) (auto simp: getattr_setattr Let_def)

lemma normalize_loop_name: "name (normalize_loop fs s) = name s"
  by (induction fs arbitrary: s) (auto simp: name_setattr Let_def)

lemma field_names_all: "f \<in> set field_names"
  by (cases f) (simp_all add: field_names_def)

lemma to_row_fields:
  "tl (to_row s) =
     map (getattr s)
       [F_distance, F_walk, F_easy_to_find, F_public_access, F_special_access, F_wave_quality,
        F_experience, F_frequency, F_type, F_direction, F_bottom, F_power, F_normal_length,
        F_good_day_length, F_good_swell_direction, F_good_wind_direction, F_swell_size,
        F_best_tide_position, F_best_tide_movement, F_additional_information, F_latitude,
        F_longitude]"
  by (simp add: to_row_def)

lemma parse_spot_page_Inr:
  "parse_spot_page web url = Inr s \<Longrightarrow>
   \<exists>pg n. web url = Some pg \<and> spot_name pg url = Inr n \<and> s = normalize_loop field_names (extract_spot pg n)"
  by (auto simp: parse_spot_page_def split: option.splits sum.splits)

lemma name_set_access_field: "name (set_access_field l v s) = name s"
  by (simp add: set_access_field_def)

lemma name_access_loop: "name (access_loop ps s) = name s"
  by (induction ps arbitrary: s) (auto simp: name_set_access_field split: option.splits)

lemma name_set_characteristic: "name (set_characteristic l v s) = name s"
  by (simp add: set_characteristic_def)

lemma name_column_loop: "name (column_loop cs s) = name s"
  by (induction cs s rule: column_loop.induct) (auto simp: name_set_characteristic split: option.splits)

lemma extract_spot_name: "name (extract_spot pg n) = n"
  by (simp add: extract_spot_def parse_coordinates_def parse_additional_def
      parse_characteristics_def parse_column_def parse_access_def name_access_loop
      name_column_loop Spot_def Let_def split: option.splits)

text \<open>
  C1. When the fetch succeeds and \<open>parse_spot_page\<close> returns a spot, each of the 22 fields
  other than the name is the value that the extraction steps left in it when that value is
  not empty, and "empty" otherwise; so no returned field is the empty string. The marking
  is applied once, to the spot as it stands after all four extraction steps.
\<close>

theorem parse_spot_page_fields_marked:
  assumes "parse_spot_page web url = Inr s"
  shows "\<exists>pg n. web url = Some pg \<and> spot_name pg url = Inr n \<and>
           (\<forall>f. getattr s f =
                  (if getattr (extract_spot pg n) f = [] then ''empty''
                   else getattr (extract_spot pg n) f)) \<and>
           (\<forall>f. getattr s f \<noteq> []) \<and>
           (\<forall>v \<in> set (tl (to_row s)). v \<noteq> [])"
proof -
  from assms obtain pg n where w: "web url = Some pg" and n: "spot_name pg url = Inr n"
    and s: "s = normalize_loop field_names (extract_spot pg n)"
    using parse_spot_page_Inr by blast
  have g: "getattr s f =
             (if getattr (extract_spot pg n) f = [] then ''empty''
              else getattr (extract_spot pg n) f)" for f
    unfolding s by (simp add: normalize_loop_getattr field_names_all)
  then have ne: "getattr s f \<noteq> []" for f
    by simp
  have r: "\<forall>v \<in> set (tl (to_row s)). v \<noteq> []"
  proof
    fix v
    assume "v \<in> set (tl (to_row s))"
    then have "v \<in> range (getattr s)"
      unfolding to_row_fields set_map by blast
    with ne show "v \<noteq> []" by auto
  qed
  from w n g ne r show ?thesis by blast
qed

lemma pipeline_eval:
  "parse_spot_page (\<lambda>u. if u = ''https://www.wannasurf.com/spot/pipeline/index.html'' then Some pipeline_page else None)
      ''https://www.wannasurf.com/spot/pipeline/index.html''
   = Inr ((Spot ''Pipeline'')
       \<lparr>distance := ''Short walk'', walk := ''empty'', easy_to_find := ''empty'', public_access := ''empty'',
        special_access := ''empty'', wave_quality := ''empty'', experience := ''empty'', frequency := ''empty'',
        spot_type := ''Reef-coral'', direction := ''empty'', bottom := ''empty'', spot_power := ''empty'',
        normal_length := ''empty'', good_day_length := ''empty'', good_swell_direction := ''empty'',
        good_wind_direction := ''empty'', swell_size := ''empty'', best_tide_position := ''empty'',
        best_tide_movement := ''empty'', additional_information := ''empty'', latitude := ''21.66'',
        longitude := ''empty''\<rparr>)"
  by code_simp


lemma untitled_eval:
  "parse_spot_page (\<lambda>u. Some blank_page) ''https://www.wannasurf.com/spot//index.html''
   = Inr ((Spot [])
       \<lparr>distance := ''empty'', walk := ''empty'', easy_to_find := ''empty'', public_access := ''empty'',
        special_access := ''empty'', wave_quality := ''empty'', experience := ''empty'', frequency := ''empty'',
        spot_type := ''empty'', direction := ''empty'', bottom := ''empty'', spot_power := ''empty'',
        normal_length := ''empty'', good_day_length := ''empty'', good_swell_direction := ''empty'',
        good_wind_direction := ''empty'', swell_size := ''empty'', best_tide_position := ''empty'',
        best_tide_movement := ''empty'', additional_information := ''empty'', latitude := ''empty'',
        longitude := ''empty''\<rparr>)"
  by code_simp


theorem parse_spot_page_fields_marked_witness:
  "parse_spot_page (\<lambda>u. if u = ''https://www.wannasurf.com/spot/pipeline/index.html'' then Some pipeline_page else None)
      ''https://www.wannasurf.com/spot/pipeline/index.html''
   = Inr ((Spot ''Pipeline'')
       \<lparr>distance := ''Short walk'', walk := ''empty'', easy_to_find := ''empty'', public_access := ''empty'',
        special_access := ''empty'', wave_quality := ''empty'', experience := ''empty'', frequency := ''empty'',
        spot_type := ''Reef-coral'', direction := ''empty'', bottom := ''empty'', spot_power := ''empty'',
        normal_length := ''empty'', good_day_length := ''empty'', good_swell_direction := ''empty'',
        good_wind_direction := ''empty'', swell_size := ''empty'', best_tide_position := ''empty'',
        best_tide_movement := ''empty'', additional_information := ''empty'', latitude := ''21.66'',
        longitude := ''empty''\<rparr>) \<and>
   (\<forall>f. getattr ((Spot ''Pipeline'')
       \<lparr>distance := ''Short walk'', walk := ''empty'', easy_to_find := ''empty'', public_access := ''empty'',
        special_access := ''empty'', wave_quality := ''empty'', experience := ''empty'', frequency := ''empty'',
        spot_type := ''Reef-coral'', direction := ''empty'', bottom := ''empty'', spot_power := ''empty'',
        normal_length := ''empty'', good_day_length := ''empty'', good_swell_direction := ''empty'',
        good_wind_direction := ''empty'', swell_size := ''empty'', best_tide_position := ''empty'',
        best_tide_movement := ''empty'', additional_information := ''empty'', latitude := ''21.66'',
        longitude := ''empty''\<rparr>) f \<noteq> [])"
  using parse_spot_page_fields_marked [OF pipeline_eval] pipeline_eval
  by blast

text \<open>
  C9. The name is not marked: the returned spot's name is the name derived from the title
  or the address. With no title and an address whose last but one segment is empty, the
  returned spot has the empty string as its name while every other field is "empty".
\<close>

theorem parse_spot_page_name_not_marked:
  "(parse_spot_page web url = Inr s \<longrightarrow>
      (\<exists>pg. web url = Some pg \<and> spot_name pg url = Inr (name s))) \<and>
   (\<exists>s0. parse_spot_page (\<lambda>u. Some blank_page) ''https://www.wannasurf.com/spot//index.html'' = Inr s0 \<and>
         name s0 = [] \<and> (\<forall>f. getattr s0 f = ''empty''))"
proof
  show "parse_spot_page web url = Inr s \<longrightarrow>
      (\<exists>pg. web url = Some pg \<and> spot_name pg url = Inr (name s))"
  proof
    assume "parse_spot_page web url = Inr s"
    then obtain pg n where "web url = Some pg" and "spot_name pg url = Inr n"
      and "s = normalize_loop field_names (extract_spot pg n)"
      using parse_spot_page_Inr by blast
    moreover have "name (extract_spot pg n) = n"
      by (simp add: extract_spot_name)
    ultimately show "\<exists>pg. web url = Some pg \<and> spot_name pg url = Inr (name s)"
      by (simp add: normalize_loop_name)
  qed
next
  have "\<forall>f. getattr ((Spot [])
       \<lparr>distance := ''empty'', walk := ''empty'', easy_to_find := ''empty'', public_access := ''empty'',
        special_access := ''empty'', wave_quality := ''empty'', experience := ''empty'', frequency := ''empty'',
        spot_type := ''empty'', direction := ''empty'', bottom := ''empty'', spot_power := ''empty'',
        normal_length := ''empty'', good_day_length := ''empty'', good_swell_direction := ''empty'',
        good_wind_direction := ''empty'', swell_size := ''empty'', best_tide_position := ''empty'',
        best_tide_movement := ''empty'', additional_information := ''empty'', latitude := ''empty'',
        longitude := ''empty''\<rparr>) f = ''empty''"
  proof
    fix f show "getattr ((Spot [])
       \<lparr>distance := ''empty'', walk := ''empty'', easy_to_find := ''empty'', public_access := ''empty'',
        special_access := ''empty'', wave_quality := ''empty'', experience := ''empty'', frequency := ''empty'',
        spot_type := ''empty'', direction := ''empty'', bottom := ''empty'', spot_power := ''empty'',
        normal_length := ''empty'', good_day_length := ''empty'', good_swell_direction := ''empty'',
        good_wind_direction := ''empty'', swell_size := ''empty'', best_tide_position := ''empty'',
        best_tide_movement := ''empty'', additional_information := ''empty'', latitude := ''empty'',
        longitude := ''empty''\<rparr>) f = ''empty''"
      by (cases f) simp_all
  qed
  with untitled_eval
  show "\<exists>s0. parse_spot_page (\<lambda>u. Some blank_page) ''https://www.wannasurf.com/spot//index.html'' = Inr s0 \<and>
         name s0 = [] \<and> (\<forall>f. getattr s0 f = ''empty'')"
    by (simp add: Spot_def)
qed

theorem parse_spot_page_name_not_marked_witness:
  "parse_spot_page (\<lambda>u. if u = ''https://www.wannasurf.com/spot/pipeline/index.html'' then Some pipeline_page else None)
      ''https://www.wannasurf.com/spot/pipeline/index.html'' \<noteq> Inl FetchError \<and>
   spot_name pipeline_page ''https://www.wannasurf.com/spot/pipeline/index.html'' = Inr ''Pipeline''"
proof -
  let ?w = "\<lambda>u. if u = ''https://www.wannasurf.com/spot/pipeline/index.html'' then Some pipeline_page else None"
  let ?u = "''https://www.wannasurf.com/spot/pipeline/index.html''"
  from pipeline_eval obtain s where e: "parse_spot_page ?w ?u = Inr s" and n: "name s = ''Pipeline''"
    by (simp add: Spot_def)
  from parse_spot_page_name_not_marked [of ?w ?u s] e
  obtain pg where "?w ?u = Some pg" and "spot_name pg ?u = Inr (name s)"
    by blast
  with n e show ?thesis by simp
qed

section \<open>Properties of the country and zone parser\<close>

lemma spots_loop_eq:
  "spots_loop web links (spots, log) =
     (spots @ successes (map (\<lambda>(s_name, s_url). parse_spot_page web s_url) links),
      log @ spot_warnings web links)"
  by (induction links arbitrary: spots log) (auto simp: spot_warnings_def split: sum.splits)

lemma zones_loop_eq:
  "zones_loop parse links (subs, log) =
     (subs @ successes (map (\<lambda>(z_name, z_url). snd (parse z_url)) links),
      log @ concat (map (\<lambda>(z_name, z_url).
                      fst (parse z_url) @
                      (case snd (parse z_url) of Inl e \<Rightarrow> [Warn_zone z_name z_url e] | Inr z \<Rightarrow> [])) links))"
  by (induction links arbitrary: subs log) (auto split: sum.splits prod.splits)

lemma spot_warning_logged:
  "(s_name, s_url) \<in> set links \<Longrightarrow> parse_spot_page web s_url = Inl e
   \<Longrightarrow> Warn_spot s_name s_url e \<in> set (spot_warnings web links)"
  by (force simp: spot_warnings_def)

lemma zone_warning_logged:
  "(z_name, z_url) \<in> set links \<Longrightarrow> snd (parse z_url) = Inl e
   \<Longrightarrow> Warn_zone z_name z_url e
       \<in> set (concat (map (\<lambda>(z_name, z_url).
                      fst (parse z_url) @
                      (case snd (parse z_url) of Inl e \<Rightarrow> [Warn_zone z_name z_url e] | Inr z \<Rightarrow> [])) links))"
  by force

text \<open>
  C2. When the node's own document is fetched and its own data parsed, the parse of the
  node returns a node whatever its children do: the node's surf spots and sub-zones are the
  results of the child links whose parse did not raise, in the order the links were
  discovered, and for every child link whose parse raised, a warning naming that link and
  the exception is logged.
\<close>

theorem child_failure_isolated:
  assumes "web url = Some pg" and "parse_node_header pg url is_country = Inr z"
  shows "\<exists>log node.
           parse_country_or_zone_page (Suc depth) web url is_country = (log, Inr node) \<and>
           surf_spots node =
             successes (map (\<lambda>(s_name, s_url). parse_spot_page web s_url)
                          (discover_links (pg_spot_rows pg))) \<and>
           sub_zones node =
             successes (map (\<lambda>(z_name, z_url). snd (parse_country_or_zone_page depth web z_url False))
                          (discover_links (pg_zone_rows pg))) \<and>
           (\<forall>s_name s_url e. (s_name, s_url) \<in> set (discover_links (pg_spot_rows pg)) \<and>
                parse_spot_page web s_url = Inl e \<longrightarrow> Warn_spot s_name s_url e \<in> set log) \<and>
           (\<forall>z_name z_url e. (z_name, z_url) \<in> set (discover_links (pg_zone_rows pg)) \<and>
                snd (parse_country_or_zone_page depth web z_url False) = Inl e
                \<longrightarrow> Warn_zone z_name z_url e \<in> set log)"
proof -
  let ?spots = "discover_links (pg_spot_rows pg)"
  let ?zones = "discover_links (pg_zone_rows pg)"
  let ?parse = "\<lambda>z_url. parse_country_or_zone_page depth web z_url False"
  let ?zlog = "concat (map (\<lambda>(z_name, z_url).
                      fst (?parse z_url) @
                      (case snd (?parse z_url) of Inl e \<Rightarrow> [Warn_zone z_name z_url e] | Inr z \<Rightarrow> [])) ?zones)"
  let ?log = "spot_warnings web ?spots @ ?zlog"
  let ?node = "set_sub_zones
                 (set_surf_spots z (successes (map (\<lambda>(s_name, s_url). parse_spot_page web s_url) ?spots)))
                 (successes (map (\<lambda>(z_name, z_url). snd (?parse z_url)) ?zones))"
  have run: "parse_country_or_zone_page (Suc depth) web url is_country = (?log, Inr ?node)"
    using assms by (simp add: spots_loop_eq zones_loop_eq Let_def)
  have a: "surf_spots ?node = successes (map (\<lambda>(s_name, s_url). parse_spot_page web s_url) ?spots)"
    by (simp add: set_sub_zones_def set_surf_spots_def)
  have b: "sub_zones ?node = successes (map (\<lambda>(z_name, z_url). snd (?parse z_url)) ?zones)"
    by (simp add: set_sub_zones_def)
  have c: "\<forall>s_name s_url e. (s_name, s_url) \<in> set ?spots \<and> parse_spot_page web s_url = Inl e
             \<longrightarrow> Warn_spot s_name s_url e \<in> set ?log"
    using spot_warning_logged by auto
  have d: "\<forall>z_name z_url e. (z_name, z_url) \<in> set ?zones \<and> snd (?parse z_url) = Inl e
             \<longrightarrow> Warn_zone z_name z_url e \<in> set ?log"
  proof (intro allI impI)
    fix z_name z_url e
    assume "(z_name, z_url) \<in> set ?zones \<and> snd (?parse z_url) = Inl e"
    then have "Warn_zone z_name z_url e \<in> set ?zlog"
      using zone_warning_logged [of z_name z_url ?zones ?parse e] by blast
    then show "Warn_zone z_name z_url e \<in> set ?log" by simp
  qed
  from run a b c d show ?thesis by blast
qed

lemma hawaii_eval:
  "parse_country_or_zone_page 2 hawaii_web hawaii_url True =
     ([Warn_spot ''Jaws'' ''https://www.wannasurf.com/spot/Hawaii/Jaws/index.html'' FetchError,
       Warn_zone ''Maui'' ''https://www.wannasurf.com/spot/Hawaii/Maui/index.html'' FetchError],
      Inr (Zone ''Hawaii'' hawaii_url [] [] [] None
             [all_empty ''Pipeline'', all_empty ''Hanalei'']
             [Zone ''Oahu'' ''https://www.wannasurf.com/spot/Hawaii/Oahu/index.html'' [] [] [] None [] [],
              Zone ''Kauai'' ''https://www.wannasurf.com/spot/Hawaii/Kauai/index.html'' [] [] [] None [] []]))"
  by code_simp


theorem child_failure_isolated_witness:
  "hawaii_web hawaii_url = Some hawaii_page \<and>
   parse_node_header hawaii_page hawaii_url True = Inr (Zone ''Hawaii'' hawaii_url [] [] [] None [] []) \<and>
   parse_spot_page hawaii_web ''https://www.wannasurf.com/spot/Hawaii/Jaws/index.html'' = Inl FetchError \<and>
   snd (parse_country_or_zone_page 1 hawaii_web ''https://www.wannasurf.com/spot/Hawaii/Maui/index.html'' False)
     = Inl FetchError \<and>
   (\<exists>log node.
      parse_country_or_zone_page 2 hawaii_web hawaii_url True = (log, Inr node) \<and>
      map name (surf_spots node) = [''Pipeline'', ''Hanalei''] \<and>
      map zone_name (sub_zones node) = [''Oahu'', ''Kauai''] \<and>
      Warn_spot ''Jaws'' ''https://www.wannasurf.com/spot/Hawaii/Jaws/index.html'' FetchError \<in> set log \<and>
      Warn_zone ''Maui'' ''https://www.wannasurf.com/spot/Hawaii/Maui/index.html'' FetchError \<in> set log)"
proof -
  have w: "hawaii_web hawaii_url = Some hawaii_page"
    by (simp add: hawaii_web_def)
  have h: "parse_node_header hawaii_page hawaii_url True = Inr (Zone ''Hawaii'' hawaii_url [] [] [] None [] [])"
    by code_simp
  have j: "parse_spot_page hawaii_web ''https://www.wannasurf.com/spot/Hawaii/Jaws/index.html'' = Inl FetchError"
    by code_simp
  have m: "snd (parse_country_or_zone_page 1 hawaii_web ''https://www.wannasurf.com/spot/Hawaii/Maui/index.html'' False)
            = Inl FetchError"
    by code_simp
  have links:
    "(''Jaws'', ''https://www.wannasurf.com/spot/Hawaii/Jaws/index.html'') \<in> set (discover_links (pg_spot_rows hawaii_page))"
    "(''Maui'', ''https://www.wannasurf.com/spot/Hawaii/Maui/index.html'') \<in> set (discover_links (pg_zone_rows hawaii_page))"
    by code_simp+
  from child_failure_isolated [where web = hawaii_web and url = hawaii_url and depth = 1, OF w h]
  obtain log node where
    run: "parse_country_or_zone_page (Suc 1) hawaii_web hawaii_url True = (log, Inr node)"
    and ws: "\<forall>s_name s_url e. (s_name, s_url) \<in> set (discover_links (pg_spot_rows hawaii_page)) \<and>
                parse_spot_page hawaii_web s_url = Inl e \<longrightarrow> Warn_spot s_name s_url e \<in> set log"
    and wz: "\<forall>z_name z_url e. (z_name, z_url) \<in> set (discover_links (pg_zone_rows hawaii_page)) \<and>
                snd (parse_country_or_zone_page 1 hawaii_web z_url False) = Inl e
                \<longrightarrow> Warn_zone z_name z_url e \<in> set log"
    by blast
  have two: "Suc 1 = 2" by simp
  from run hawaii_eval have node: "node = Zone ''Hawaii'' hawaii_url [] [] [] None
             [all_empty ''Pipeline'', all_empty ''Hanalei'']
             [Zone ''Oahu'' ''https://www.wannasurf.com/spot/Hawaii/Oahu/index.html'' [] [] [] None [] [],
              Zone ''Kauai'' ''https://www.wannasurf.com/spot/Hawaii/Kauai/index.html'' [] [] [] None [] []]"
    unfolding two by simp
  have n1: "map name (surf_spots node) = [''Pipeline'', ''Hanalei'']"
    unfolding node by (simp add: all_empty_def)
  have n2: "map zone_name (sub_zones node) = [''Oahu'', ''Kauai'']"
    unfolding node by simp
  from ws links(1) j have l1: "Warn_spot ''Jaws'' ''https://www.wannasurf.com/spot/Hawaii/Jaws/index.html'' FetchError \<in> set log"
    by blast
  from wz links(2) m have l2: "Warn_zone ''Maui'' ''https://www.wannasurf.com/spot/Hawaii/Maui/index.html'' FetchError \<in> set log"
    by blast
  from run have run2: "parse_country_or_zone_page 2 hawaii_web hawaii_url True = (log, Inr node)"
    unfolding two .
  from w h j m run2 n1 n2 l1 l2 show ?thesis by simp
qed

section \<open>Properties of the workbook\<close>














text \<open>
  The sheets after the country sheet, the zones sheet and the sub-zone sheets are the
  surf-spot sheets: one for each entry of \<open>leaf_zones\<close> of each country, in order, holding
  the header and the spots of that zone. \<open>leaf_zones\<close> holds the country when it has no
  zones, its zones without sub-zones, and their sub-zones without sub-zones.
\<close>

lemma sub_sheets_loop_length:
  "length (fst (sub_sheets_loop zs bk)) = length (fst bk) + length zs"
  by (induction zs bk rule: sub_sheets_loop.induct) (simp_all add: Let_def)

lemma leaf_sheets_loop_rows:
  "map sheet_rows (fst (leaf_sheets_loop zs bk))
   = map sheet_rows (fst bk) @ map (\<lambda>(z_name, leaf_zone). spot_sheet_rows z_name leaf_zone) zs"
  by (induction zs bk rule: leaf_sheets_loop.induct) (simp_all add: Let_def)

lemma countries_leaf_loop_rows:
  "map sheet_rows (fst (countries_leaf_loop cs bk))
   = map sheet_rows (fst bk)
     @ map (\<lambda>(z_name, leaf_zone). spot_sheet_rows z_name leaf_zone)
         (concat (map (\<lambda>(country_name, country_zone). leaf_zones country_zone) cs))"
  by (induction cs bk rule: countries_leaf_loop.induct) (simp_all add: leaf_sheets_loop_rows)

lemma spot_sheets_of_workbook:
  "drop (2 + length (nested_zones countries)) (map sheet_rows (workbook_sheets continent countries))
   = map (\<lambda>(z_name, leaf_zone). spot_sheet_rows z_name leaf_zone)
       (concat (map (\<lambda>(country_name, country_zone). leaf_zones country_zone) countries))"
proof -
  let ?bk = "sub_sheets_loop (nested_zones countries)
               ([country_sheet continent countries, zones_sheet countries], [''Zones'', ''Country''])"
  have "length (map sheet_rows (fst ?bk)) = 2 + length (nested_zones countries)"
    by (simp add: sub_sheets_loop_length)
  then show ?thesis
    by (simp add: workbook_sheets_def countries_leaf_loop_rows)
qed

lemma leaf_zones_two_levels:
  "(sub_zones c = [] \<longrightarrow> leaf_zones c = [(zone_name c, c)]) \<and>
   (\<forall>z \<in> set (sub_zones c). sub_zones z = [] \<longrightarrow> (zone_name z, z) \<in> set (leaf_zones c)) \<and>
   (\<forall>z \<in> set (sub_zones c). \<forall>sz \<in> set (sub_zones z).
      sub_zones sz = [] \<longrightarrow> (zone_name sz, sz) \<in> set (leaf_zones c))"
  by (auto simp: leaf_zones_def)

lemma deep_parsed:
  "parse_country_or_zone_page 4 deep_web ''https://www.wannasurf.com/spot/Deepland/index.html'' True
   = ([], Inr deep_country)"
  by code_simp

lemma deep_sheets:
  "leaf_zones deep_country = [] \<and>
   map sheet_name (workbook_sheets ''Oceania'' [(''Deepland'', deep_country)]) = [''Country'', ''Zones'', ''North'']"
  by code_simp

text \<open>
  C7 fails on the code for a zone three levels below its country. The parser builds the
  country \<open>deep_country\<close> from the site \<open>deep_web\<close>; its zone at the bottom has no sub-zones and
  owns a spot, and yet the workbook has the sheets "Country", "Zones" and "North" only: no
  sheet lists that zone's spot.
\<close>

theorem deep_leaf_zone_has_no_sheet:
  "parse_country_or_zone_page 4 deep_web ''https://www.wannasurf.com/spot/Deepland/index.html'' True
     = ([], Inr deep_country) \<and>
   sub_zones deep_country
     = [Zone ''North'' ''https://www.wannasurf.com/spot/Deepland/North/index.html'' [] [] [] None []
          [Zone ''Coast'' ''https://www.wannasurf.com/spot/Deepland/North/Coast/index.html'' [] [] [] None []
             [reef_zone]]] \<and>
   is_leaf reef_zone \<and> surf_spots reef_zone = [all_empty ''Outer''] \<and>
   leaf_zones deep_country = [] \<and>
   map sheet_name (workbook_sheets ''Oceania'' [(''Deepland'', deep_country)]) = [''Country'', ''Zones'', ''North'']"
  using deep_parsed deep_sheets
  by (simp add: deep_country_def reef_zone_def is_leaf_def)

section \<open>Properties of the driver\<close>

lemma set_surf_spots_same: "set_surf_spots z (surf_spots z) = z"
  by (cases z) (simp add: set_surf_spots_def)

lemma set_sub_zones_same: "set_sub_zones z (sub_zones z) = z"
  by (cases z) (simp add: set_sub_zones_def)

lemma limit_spots_False: "limit_spots False z = z"
  by (simp add: limit_spots_def)

lemma limit_spots_True: "limit_spots True z = set_surf_spots z (take 5 (surf_spots z))"
  by (simp add: limit_spots_def set_surf_spots_same)

lemma dump_csvs_False: "fst (dump_csvs False z) = z"
  by (simp add: dump_csvs_def Let_def limit_spots_False set_sub_zones_same cong: map_cong)

lemma dump_csvs_True_leaf:
  "sub_zones z = [] \<Longrightarrow> fst (dump_csvs True z) = set_surf_spots z (take 5 (surf_spots z))"
  by (simp add: dump_csvs_def Let_def limit_spots_True)

lemma dump_csvs_True_inner:
  "sub_zones z \<noteq> [] \<Longrightarrow>
   fst (dump_csvs True z)
   = set_sub_zones z (set_surf_spots (hd (sub_zones z)) (take 5 (surf_spots (hd (sub_zones z))))
                      # tl (sub_zones z))"
  by (cases "sub_zones z") (simp_all add: dump_csvs_def Let_def limit_spots_True)

lemma countries_loop_data:
  "\<forall>kv \<in> set (run_data r). from_parse sample depth web (snd kv)
   \<Longrightarrow> \<forall>kv \<in> set (run_data (countries_loop sample depth web cs r)). from_parse sample depth web (snd kv)"
proof (induction cs arbitrary: r)
  case Nil
  then show ?case by simp
next
  case (Cons c cs)
  obtain country_name country_url where c: "c = (country_name, country_url)" by (cases c)
  obtain plog res where p: "parse_country_or_zone_page depth web country_url True = (plog, res)"
    by (cases "parse_country_or_zone_page depth web country_url True")
  show ?case
  proof (cases res)
    case (Inl e)
    have "\<forall>kv \<in> set (run_data (r\<lparr>run_log := run_log r @ plog @ [Error_country country_name e]\<rparr>)).
            from_parse sample depth web (snd kv)"
      using Cons.prems by simp
    from Cons.IH [OF this] show ?thesis
      by (simp add: c p Inl)
  next
    case (Inr country_zone)
    obtain stored files where d: "dump_csvs sample country_zone = (stored, files)"
      by (cases "dump_csvs sample country_zone")
    have fp: "from_parse sample depth web stored"
      unfolding from_parse_def using p Inr d by (metis fst_conv)
    let ?r = "\<lparr>run_data = AList.update country_name stored (run_data r),
               run_files = run_files r @ files, run_log = run_log r @ plog\<rparr>"
    have "\<forall>kv \<in> set (run_data ?r). from_parse sample depth web (snd kv)"
      using Cons.prems fp set_update_subset [of country_name stored "run_data r"] by auto
    from Cons.IH [OF this] show ?thesis
      by (simp add: c p Inr d)
  qed
qed

lemma continents_run_data:
  "\<forall>cc \<in> set (fst st). \<forall>kv \<in> set (snd cc). from_parse sample depth web (snd kv)
   \<Longrightarrow> \<forall>cc \<in> set (fst (continents_run sample depth web cm st)).
         \<forall>kv \<in> set (snd cc). from_parse sample depth web (snd kv)"
proof (induction cm arbitrary: st)
  case Nil
  then show ?case by simp
next
  case (Cons c cm)
  obtain continent_name countries where c: "c = (continent_name, countries)" by (cases c)
  obtain data files log where st: "st = (data, files, log)" by (cases st)
  define rd where
    "rd = run_data (countries_loop sample depth web (if sample then take 1 countries else countries)
                      \<lparr>run_data = [], run_files = [], run_log = []\<rparr>)"
  define fs where
    "fs = run_files (countries_loop sample depth web (if sample then take 1 countries else countries)
                      \<lparr>run_data = [], run_files = [], run_log = []\<rparr>)"
  define lg where
    "lg = run_log (countries_loop sample depth web (if sample then take 1 countries else countries)
                      \<lparr>run_data = [], run_files = [], run_log = []\<rparr>)"
  have r: "\<forall>kv \<in> set rd. from_parse sample depth web (snd kv)"
    unfolding rd_def by (rule countries_loop_data) simp
  have "\<forall>cc \<in> set (AList.update continent_name rd data).
          \<forall>kv \<in> set (snd cc). from_parse sample depth web (snd kv)"
  proof
    fix cc
    assume "cc \<in> set (AList.update continent_name rd data)"
    with set_update_subset [of continent_name rd data]
    have "cc = (continent_name, rd) \<or> cc \<in> set data" by blast
    then show "\<forall>kv \<in> set (snd cc). from_parse sample depth web (snd kv)"
    proof
      assume "cc = (continent_name, rd)"
      with r show ?thesis by simp
    next
      assume "cc \<in> set data"
      with Cons.prems show ?thesis by (simp add: st)
    qed
  qed
  then have "\<forall>cc \<in> set (fst (AList.update continent_name rd data, files @ fs, log @ lg)).
          \<forall>kv \<in> set (snd cc). from_parse sample depth web (snd kv)"
    by simp
  from Cons.IH [OF this] show ?case
    by (simp add: c st Let_def rd_def fs_def lg_def)
qed

lemma main_data:
  assumes "main sample depth web = Inr out"
  shows "workbooks out = build_excel_workbook (continents_data out) \<and>
         (\<forall>cc \<in> set (continents_data out). \<forall>kv \<in> set (snd cc). from_parse sample depth web (snd kv))"
proof -
  from assms obtain cm where h: "parse_homepage web = Inr cm"
    by (auto simp: main_def split: sum.splits)
  obtain data files log where cr: "continents_run sample depth web cm ([], [], []) = (data, files, log)"
    by (cases "continents_run sample depth web cm ([], [], [])")
  from assms h cr have out: "out = \<lparr>continents_data = data, csv_files = files,
                   workbooks = build_excel_workbook data, messages = log\<rparr>"
    by (simp add: main_def)
  have "\<forall>cc \<in> set (fst (continents_run sample depth web cm ([], [], []))).
         \<forall>kv \<in> set (snd cc). from_parse sample depth web (snd kv)"
    by (rule continents_run_data) simp
  with cr out show ?thesis by simp
qed

lemma fiji_parsed:
  "parse_country_or_zone_page 2 fiji_web ''https://www.wannasurf.com/spot/Fiji/index.html'' True
   = ([], Inr six_spots)"
  by code_simp

lemma fiji_main:
  "(case main True 2 fiji_web of
      Inl e \<Rightarrow> False
    | Inr out \<Rightarrow>
        continents_data out = [(''Oceania'', [(''Fiji'', set_surf_spots six_spots (take 5 (surf_spots six_spots)))])])"
  by code_simp

text \<open>
  C8, as the claim states it, fails: the parser builds a country with six spots and no
  zones, and the sampled run of the driver leaves it in its data with five.
\<close>

theorem sampling_truncates_counterexample:
  "parse_country_or_zone_page 2 fiji_web ''https://www.wannasurf.com/spot/Fiji/index.html'' True
     = ([], Inr six_spots) \<and>
   length (surf_spots six_spots) = 6 \<and>
   length (surf_spots (fst (dump_csvs True six_spots))) = 5 \<and>
   fst (dump_csvs True six_spots) \<noteq> six_spots \<and>
   (case main True 2 fiji_web of
      Inl e \<Rightarrow> False
    | Inr out \<Rightarrow>
        continents_data out = [(''Oceania'', [(''Fiji'', fst (dump_csvs True six_spots))])])"
proof -
  have a: "length (surf_spots six_spots) = 6 \<and>
           length (surf_spots (fst (dump_csvs True six_spots))) = 5 \<and>
           fst (dump_csvs True six_spots) \<noteq> six_spots"
    by code_simp
  have b: "fst (dump_csvs True six_spots) = set_surf_spots six_spots (take 5 (surf_spots six_spots))"
    by (simp add: dump_csvs_True_leaf six_spots_def)
  from a fiji_parsed fiji_main show ?thesis
    unfolding b by simp
qed

text \<open>
  C8, amended. Without sampling the CSV step leaves a parsed country as it is. With
  sampling it changes one thing only: the spot list of the country when it has no zones, of
  its first zone otherwise, is cut to its first five entries. Every zone in the data of a
  finished run is what the CSV step left of a parsed country, and the workbooks are computed
  from that data, which report aggregation and CSV writing only read.
\<close>

theorem zones_changed_only_by_sampling:
  "fst (dump_csvs False z) = z \<and>
   (sub_zones z = [] \<longrightarrow> fst (dump_csvs True z) = set_surf_spots z (take 5 (surf_spots z))) \<and>
   (sub_zones z \<noteq> [] \<longrightarrow>
      fst (dump_csvs True z)
      = set_sub_zones z (set_surf_spots (hd (sub_zones z)) (take 5 (surf_spots (hd (sub_zones z))))
                         # tl (sub_zones z))) \<and>
   (main sample depth web = Inr out \<longrightarrow>
      workbooks out = build_excel_workbook (continents_data out) \<and>
      (\<forall>cc \<in> set (continents_data out). \<forall>kv \<in> set (snd cc).
         \<exists>country_url plog parsed.
           parse_country_or_zone_page depth web country_url True = (plog, Inr parsed) \<and>
           snd kv = fst (dump_csvs sample parsed)))"
proof -
  have "main sample depth web = Inr out \<longrightarrow>
      workbooks out = build_excel_workbook (continents_data out) \<and>
      (\<forall>cc \<in> set (continents_data out). \<forall>kv \<in> set (snd cc).
         \<exists>country_url plog parsed.
           parse_country_or_zone_page depth web country_url True = (plog, Inr parsed) \<and>
           snd kv = fst (dump_csvs sample parsed))"
    using main_data [of sample depth web out] by (simp add: from_parse_def)
  with dump_csvs_False [of z] dump_csvs_True_leaf [of z] dump_csvs_True_inner [of z]
  show ?thesis by blast
qed

theorem zones_changed_only_by_sampling_witness:
  "sub_zones six_spots = [] \<and>
   fst (dump_csvs True six_spots) = set_surf_spots six_spots (take 5 (surf_spots six_spots)) \<and>
   sub_zones cote_country \<noteq> [] \<and>
   fst (dump_csvs True cote_country) = cote_country \<and>
   fst (dump_csvs False six_spots) = six_spots \<and>
   (\<exists>out. main True 2 fiji_web = Inr out \<and>
      workbooks out = build_excel_workbook (continents_data out) \<and>
      (\<forall>cc \<in> set (continents_data out). \<forall>kv \<in> set (snd cc).
         \<exists>country_url plog parsed.
           parse_country_or_zone_page 2 fiji_web country_url True = (plog, Inr parsed) \<and>
           snd kv = fst (dump_csvs True parsed)) \<and>
      continents_data out = [(''Oceania'', [(''Fiji'', set_surf_spots six_spots (take 5 (surf_spots six_spots)))])])"
proof -
  have a: "sub_zones six_spots = []" by (simp add: six_spots_def)
  have b: "sub_zones cote_country \<noteq> []" by (simp add: cote_country_def)
  from fiji_main obtain out where m: "main True 2 fiji_web = Inr out"
    and d: "continents_data out = [(''Oceania'', [(''Fiji'', set_surf_spots six_spots (take 5 (surf_spots six_spots)))])]"
    by (cases "main True 2 fiji_web") simp_all
  note t1 = zones_changed_only_by_sampling [of six_spots True 2 fiji_web out]
  note t2 = zones_changed_only_by_sampling [of cote_country True 2 fiji_web out]
  from t1 a have c1: "fst (dump_csvs True six_spots) = set_surf_spots six_spots (take 5 (surf_spots six_spots))"
    by blast
  from t1 have c2: "fst (dump_csvs False six_spots) = six_spots" by blast
  from t2 b have "fst (dump_csvs True cote_country)
      = set_sub_zones cote_country
          (set_surf_spots (hd (sub_zones cote_country)) (take 5 (surf_spots (hd (sub_zones cote_country))))
           # tl (sub_zones cote_country))" by blast
  also have "\<dots> = cote_country"
    by (simp add: cote_country_def set_sub_zones_def set_surf_spots_def)
  finally have c3: "fst (dump_csvs True cote_country) = cote_country" .
  from t1 m have c4: "workbooks out = build_excel_workbook (continents_data out) \<and>
      (\<forall>cc \<in> set (continents_data out). \<forall>kv \<in> set (snd cc).
         \<exists>country_url plog parsed.
           parse_country_or_zone_page 2 fiji_web country_url True = (plog, Inr parsed) \<and>
           snd kv = fst (dump_csvs True parsed))"
    by blast
  from a b c1 c2 c3 c4 m d show ?thesis by blast
qed

end
